theory Spec2Isabelle
  imports Complex_Main "HOL-Library.AList" "HOL-Library.Sublist"
begin

section \<open>Data model\<close>

text \<open>
  The embedding follows \<^verbatim>\<open>src/monitoring/advanced_drift_detector.py\<close> and
  \<^verbatim>\<open>src/monitoring/drift/drift_service.py\<close>.

  A raised Python exception is a value of \<open>exn\<close>: its class and its message
  (\<^verbatim>\<open>str(e)\<close>). Every class listed derives from \<^verbatim>\<open>Exception\<close>, so
  \<^verbatim>\<open>except Exception\<close> catches all of them and \<^verbatim>\<open>except ImportError\<close>
  catches the first only.
\<close>

text \<open>
  A Python float is a real number or NaN. Arithmetic with NaN gives NaN and every
  comparison with NaN is false, as in IEEE 754. Rounding and overflow are not
  modelled, and the infinities are left out: the two modules compute none from
  numbers. The code divides only by a total weight that it has tested to be positive.
\<close>

datatype pyfloat = Fin real | NaN

fun float_add :: "pyfloat \<Rightarrow> pyfloat \<Rightarrow> pyfloat" where
  "float_add (Fin a) (Fin b) = Fin (a + b)"
| "float_add (Fin a) NaN = NaN"
| "float_add NaN b = NaN"

fun float_sub :: "pyfloat \<Rightarrow> pyfloat \<Rightarrow> pyfloat" where
  "float_sub (Fin a) (Fin b) = Fin (a - b)"
| "float_sub (Fin a) NaN = NaN"
| "float_sub NaN b = NaN"

fun float_mul :: "pyfloat \<Rightarrow> pyfloat \<Rightarrow> pyfloat" where
  "float_mul (Fin a) (Fin b) = Fin (a * b)"
| "float_mul (Fin a) NaN = NaN"
| "float_mul NaN b = NaN"

fun float_div :: "pyfloat \<Rightarrow> pyfloat \<Rightarrow> pyfloat" where
  "float_div (Fin a) (Fin b) = Fin (a / b)"
| "float_div (Fin a) NaN = NaN"
| "float_div NaN b = NaN"

text \<open>\<^verbatim>\<open>a < b\<close>, \<^verbatim>\<open>a > b\<close> and \<^verbatim>\<open>a == b\<close> on floats.\<close>

fun float_lt :: "pyfloat \<Rightarrow> pyfloat \<Rightarrow> bool" where
  "float_lt (Fin a) (Fin b) = (a < b)"
| "float_lt (Fin a) NaN = False"
| "float_lt NaN b = False"

definition float_gt :: "pyfloat \<Rightarrow> pyfloat \<Rightarrow> bool" where
  "float_gt a b = float_lt b a"

fun float_eq :: "pyfloat \<Rightarrow> pyfloat \<Rightarrow> bool" where
  "float_eq (Fin a) (Fin b) = (a = b)"
| "float_eq (Fin a) NaN = False"
| "float_eq NaN b = False"

text \<open>
  Python's \<^verbatim>\<open>min(a, b)\<close> returns \<^verbatim>\<open>a\<close> unless \<^verbatim>\<open>b < a\<close>, and
  \<^verbatim>\<open>max\<close> over a sequence keeps the element it holds unless the next one is
  greater.
\<close>

definition py_min :: "pyfloat \<Rightarrow> pyfloat \<Rightarrow> pyfloat" where
  "py_min a b = (if float_lt b a then b else a)"

fun py_max_from :: "pyfloat \<Rightarrow> pyfloat list \<Rightarrow> pyfloat" where
  "py_max_from held [] = held"
| "py_max_from held (x # xs) = py_max_from (if float_gt x held then x else held) xs"

datatype exn_class = ImportError | KeyError | ValueError | LinAlgError | RuntimeError

datatype exn = Exn exn_class string

fun exn_class_of :: "exn \<Rightarrow> exn_class" where
  "exn_class_of (Exn c m) = c"

fun str_exn :: "exn \<Rightarrow> string" where
  "str_exn (Exn c m) = m"

text \<open>
  A pandas DataFrame: its columns in order, each with a dtype and its cells. A missing
  value (NaN) is \<open>Missing\<close>. Column names are taken to be distinct.
\<close>

datatype dtype = Float64 | Int64 | Bool | Object

datatype cell = Num real | Text string | Missing

record column =
  dtype :: dtype
  cells :: "cell list"

type_synonym dataframe = "(string \<times> column) list"

definition df_columns :: "dataframe \<Rightarrow> string list" where
  "df_columns df = map fst df"

text \<open>\<^verbatim>\<open>df[column]\<close>: KeyError when the frame has no such column.\<close>

definition df_getitem :: "dataframe \<Rightarrow> string \<Rightarrow> exn + column" where
  "df_getitem df name =
     (case map_of df name of None \<Rightarrow> Inl (Exn KeyError name) | Some c \<Rightarrow> Inr c)"

text \<open>\<^verbatim>\<open>len(df)\<close>: the number of rows.\<close>

definition df_len :: "dataframe \<Rightarrow> nat" where
  "df_len df = (case df of [] \<Rightarrow> 0 | (n, c) # rest \<Rightarrow> length (cells c))"

definition dropna :: "column \<Rightarrow> cell list" where
  "dropna c = filter (\<lambda>x. x \<noteq> Missing) (cells c)"

text \<open>\<^verbatim>\<open>df.drop(columns=[name])\<close>: KeyError when the column is not found.\<close>

definition df_drop :: "dataframe \<Rightarrow> string \<Rightarrow> exn + dataframe" where
  "df_drop df name =
     (if name \<in> set (df_columns df) then Inr (filter (\<lambda>(n, c). n \<noteq> name) df)
      else Inl (Exn KeyError name))"

text \<open>
  The routines of scipy, numpy, pandas and scikit-learn that the detectors call are not
  part of the repository: they are parameters of the model. Each returns its value or
  the exception it raises.
  \<^item> \<open>ks_2samp a b\<close>: \<^verbatim>\<open>stats.ks_2samp(a, b)\<close>, the statistic and the p-value;
  \<^item> \<open>histogram_bin_edges a\<close>: \<^verbatim>\<open>np.histogram_bin_edges(a, bins=10)\<close>;
  \<^item> \<open>histogram a bins\<close>: the counts of \<^verbatim>\<open>np.histogram(a, bins=bins)\<close>;
  \<^item> \<open>import_kernels\<close>: the two imports at the head of \<^verbatim>\<open>_mmd_drift\<close>;
  \<^item> \<open>df_sample n df\<close>: \<^verbatim>\<open>df.sample(n, random_state=42)\<close>;
  \<^item> \<open>kernel_mean a b\<close>: \<^verbatim>\<open>pairwise_kernels(a, b, metric=RBF(1.0)).mean()\<close>;
  \<^item> \<open>isolation_forest_ratio ref cur\<close>: fit \<^verbatim>\<open>IsolationForest(contamination=0.1,
    random_state=42)\<close> on \<open>ref\<close>, predict \<open>cur\<close>, the mean of \<^verbatim>\<open>anomalies == -1\<close>;
  \<^item> \<open>elliptic_envelope_ratio ref cur\<close>: the same with \<^verbatim>\<open>EllipticEnvelope\<close>;
  \<^item> \<open>import_classifier\<close>: the two imports at the head of \<^verbatim>\<open>_classifier_drift\<close>;
  \<^item> \<open>cross_val_auc x_ref x_curr\<close>: label, concatenate, and the mean of
    \<^verbatim>\<open>cross_val_score(RandomForestClassifier(...), cv=5, scoring="roc_auc")\<close>,
    which is NaN when a fold cannot be scored.
  The counts of a histogram are integers; every other number that a routine returns is
  a float.
\<close>

record lib =
  ks_2samp :: "cell list \<Rightarrow> cell list \<Rightarrow> exn + (pyfloat \<times> pyfloat)"
  histogram_bin_edges :: "cell list \<Rightarrow> exn + real list"
  histogram :: "cell list \<Rightarrow> real list \<Rightarrow> exn + nat list"
  import_kernels :: "exn + unit"
  df_sample :: "nat \<Rightarrow> dataframe \<Rightarrow> exn + dataframe"
  kernel_mean :: "dataframe \<Rightarrow> dataframe \<Rightarrow> exn + pyfloat"
  isolation_forest_ratio :: "dataframe \<Rightarrow> dataframe \<Rightarrow> exn + pyfloat"
  elliptic_envelope_ratio :: "dataframe \<Rightarrow> dataframe \<Rightarrow> exn + pyfloat"
  import_classifier :: "exn + unit"
  cross_val_auc :: "dataframe \<Rightarrow> dataframe \<Rightarrow> exn + pyfloat"

text \<open>
  The dict a detector returns. A key that the dict does not hold is \<open>None\<close>; the keys
  are \<^verbatim>\<open>drift_detected\<close>, \<^verbatim>\<open>drift_score\<close>, \<^verbatim>\<open>p_values\<close>,
  \<^verbatim>\<open>psi_scores\<close>, \<^verbatim>\<open>method\<close> and \<^verbatim>\<open>error\<close>.
\<close>

record method_result =
  r_drift_detected :: "bool option"
  r_drift_score :: "pyfloat option"
  r_p_values :: "(string \<times> pyfloat) list option"
  r_psi_scores :: "(string \<times> real) list option"
  r_method :: "string option"
  r_error :: "string option"

text \<open>The dict \<^verbatim>\<open>results\<close> of \<^verbatim>\<open>detect_drift\<close>, in insertion order.\<close>

type_synonym results = "(string \<times> method_result) list"

record DriftResult =
  drift_detected :: bool
  drift_score :: pyfloat
  drift_type :: string
  features_affected :: "string list"
  confidence :: pyfloat
  metadata :: "(string \<times> results) list"

text \<open>
  The detector object: \<^verbatim>\<open>__init__\<close> stores the configuration it is given. Its
  second attribute, the dict \<^verbatim>\<open>detectors\<close> of bound methods, is read by no method
  and is left out.
\<close>

record 'c MultiModalDriftDetector =
  config :: 'c

definition MultiModalDriftDetector_init :: "'c \<Rightarrow> 'c MultiModalDriftDetector" where
  "MultiModalDriftDetector_init cfg = \<lparr>config = cfg\<rparr>"

section \<open>The detectors\<close>

text \<open>
  \<^verbatim>\<open>max(d.values()) if d else 0\<close>, for the KS statistics, which are floats of
  the library, and for the PSI values, which are numbers (see \<open>psi_value\<close>).
\<close>

fun py_max_values :: "pyfloat list \<Rightarrow> pyfloat" where
  "py_max_values [] = Fin 0"
| "py_max_values (x # xs) = py_max_from x xs"

fun max_values :: "real list \<Rightarrow> real" where
  "max_values [] = 0"
| "max_values [x] = x"
| "max_values (x # y # ys) = max x (max_values (y # ys))"

definition is_numeric :: "column \<Rightarrow> bool" where
  "is_numeric c = (dtype c = Float64 \<or> dtype c = Int64)"

text \<open>
  The loop of \<^verbatim>\<open>_ks_test_drift\<close> over \<^verbatim>\<open>reference.columns\<close>, with the two
  dicts it fills. \<^verbatim>\<open>current[column]\<close> is evaluated before \<^verbatim>\<open>ks_2samp\<close> is
  called.
\<close>

fun ks_loop :: "lib \<Rightarrow> dataframe \<Rightarrow> dataframe \<Rightarrow> string list \<Rightarrow>
    (string \<times> pyfloat) list \<times> (string \<times> pyfloat) list \<Rightarrow>
    exn + ((string \<times> pyfloat) list \<times> (string \<times> pyfloat) list)" where
  "ks_loop L reference current [] acc = Inr acc"
| "ks_loop L reference current (col # cols) (drift_scores, p_values) =
     (case df_getitem reference col of
        Inl e \<Rightarrow> Inl e
      | Inr rc \<Rightarrow>
          if is_numeric rc then
            (case df_getitem current col of
               Inl e \<Rightarrow> Inl e
             | Inr cc \<Rightarrow>
                 (case ks_2samp L (dropna rc) (dropna cc) of
                    Inl e \<Rightarrow> Inl e
                  | Inr (stat, p_value) \<Rightarrow>
                      ks_loop L reference current cols
                        (AList.update col stat drift_scores,
                         AList.update col p_value p_values)))
          else ks_loop L reference current cols (drift_scores, p_values))"

definition ks_test_drift :: "lib \<Rightarrow> dataframe \<Rightarrow> dataframe \<Rightarrow> exn + method_result" where
  "ks_test_drift L reference current =
     (case ks_loop L reference current (df_columns reference) ([], []) of
        Inl e \<Rightarrow> Inl e
      | Inr (drift_scores, p_values) \<Rightarrow>
          Inr \<lparr>r_drift_detected =
                 Some (list_ex (\<lambda>p. float_lt p (Fin 0.05)) (map snd p_values)),
               r_drift_score = Some (py_max_values (map snd drift_scores)),
               r_p_values = Some p_values,
               r_psi_scores = None,
               r_method = Some ''ks_test'',
               r_error = None\<rparr>)"

text \<open>
  \<^verbatim>\<open>np.sum((curr_freq - ref_freq) * np.log(curr_freq / ref_freq))\<close> after 0.0001
  has been added to every count. The counts are integers, so every quotient is
  positive and the PSI is a number, never NaN.
\<close>

definition psi_value :: "nat list \<Rightarrow> nat list \<Rightarrow> real" where
  "psi_value ref_freq curr_freq =
     sum_list (map (\<lambda>(c, r). (c - r) * ln (c / r))
       (zip (map (\<lambda>n. real n + 0.0001) curr_freq) (map (\<lambda>n. real n + 0.0001) ref_freq)))"

fun psi_loop :: "lib \<Rightarrow> dataframe \<Rightarrow> dataframe \<Rightarrow> string list \<Rightarrow>
    (string \<times> real) list \<Rightarrow> exn + (string \<times> real) list" where
  "psi_loop L reference current [] psi_scores = Inr psi_scores"
| "psi_loop L reference current (col # cols) psi_scores =
     (case df_getitem reference col of
        Inl e \<Rightarrow> Inl e
      | Inr rc \<Rightarrow>
          if is_numeric rc then
            (case histogram_bin_edges L (dropna rc) of
               Inl e \<Rightarrow> Inl e
             | Inr bins \<Rightarrow>
                 (case histogram L (dropna rc) bins of
                    Inl e \<Rightarrow> Inl e
                  | Inr ref_freq \<Rightarrow>
                      (case df_getitem current col of
                         Inl e \<Rightarrow> Inl e
                       | Inr cc \<Rightarrow>
                           (case histogram L (dropna cc) bins of
                              Inl e \<Rightarrow> Inl e
                            | Inr curr_freq \<Rightarrow>
                                psi_loop L reference current cols
                                  (AList.update col (psi_value ref_freq curr_freq)
                                     psi_scores)))))
          else psi_loop L reference current cols psi_scores)"

definition psi_drift :: "lib \<Rightarrow> dataframe \<Rightarrow> dataframe \<Rightarrow> exn + method_result" where
  "psi_drift L reference current =
     (case psi_loop L reference current (df_columns reference) [] of
        Inl e \<Rightarrow> Inl e
      | Inr psi_scores \<Rightarrow>
          Inr \<lparr>r_drift_detected = Some (list_ex (\<lambda>psi. psi > 0.1) (map snd psi_scores)),
               r_drift_score = Some (Fin (max_values (map snd psi_scores))),
               r_p_values = None,
               r_psi_scores = Some psi_scores,
               r_method = Some ''psi'',
               r_error = None\<rparr>)"

text \<open>The body of the \<^verbatim>\<open>try\<close> of \<^verbatim>\<open>_mmd_drift\<close>, up to the value \<^verbatim>\<open>mmd\<close>.\<close>

definition mmd_body :: "lib \<Rightarrow> dataframe \<Rightarrow> dataframe \<Rightarrow> exn + pyfloat" where
  "mmd_body L reference current =
     (case import_kernels L of
        Inl e \<Rightarrow> Inl e
      | Inr u \<Rightarrow>
     (case df_sample L (min 1000 (df_len reference)) reference of
        Inl e \<Rightarrow> Inl e
      | Inr ref_sample \<Rightarrow>
     (case df_sample L (min 1000 (df_len current)) current of
        Inl e \<Rightarrow> Inl e
      | Inr curr_sample \<Rightarrow>
     (case kernel_mean L ref_sample ref_sample of
        Inl e \<Rightarrow> Inl e
      | Inr K_ref \<Rightarrow>
     (case kernel_mean L curr_sample curr_sample of
        Inl e \<Rightarrow> Inl e
      | Inr K_curr \<Rightarrow>
     (case kernel_mean L ref_sample curr_sample of
        Inl e \<Rightarrow> Inl e
      | Inr K_cross \<Rightarrow>
          Inr (float_sub (float_add K_ref K_curr) (float_mul (Fin 2) K_cross))))))))"

text \<open>\<^verbatim>\<open>except ImportError\<close>: every other exception leaves the method.\<close>

definition mmd_drift :: "lib \<Rightarrow> dataframe \<Rightarrow> dataframe \<Rightarrow> exn + method_result" where
  "mmd_drift L reference current =
     (case mmd_body L reference current of
        Inr mmd \<Rightarrow>
          Inr \<lparr>r_drift_detected = Some (float_gt mmd (Fin 0.05)),
               r_drift_score = Some mmd,
               r_p_values = None,
               r_psi_scores = None,
               r_method = Some ''mmd'',
               r_error = None\<rparr>
      | Inl e \<Rightarrow>
          if exn_class_of e = ImportError then
            Inr \<lparr>r_drift_detected = Some False,
                 r_drift_score = Some (Fin 0),
                 r_p_values = None,
                 r_psi_scores = None,
                 r_method = Some ''mmd'',
                 r_error = Some ''scikit-learn not available''\<rparr>
          else Inl e)"

text \<open>\<^verbatim>\<open>_isolation_forest_drift\<close> has no \<^verbatim>\<open>try\<close>.\<close>

definition isolation_forest_drift ::
    "lib \<Rightarrow> dataframe \<Rightarrow> dataframe \<Rightarrow> exn + method_result" where
  "isolation_forest_drift L reference current =
     (case isolation_forest_ratio L reference current of
        Inl e \<Rightarrow> Inl e
      | Inr anomaly_ratio \<Rightarrow>
          Inr \<lparr>r_drift_detected = Some (float_gt anomaly_ratio (Fin 0.15)),
               r_drift_score = Some anomaly_ratio,
               r_p_values = None,
               r_psi_scores = None,
               r_method = Some ''isolation_forest'',
               r_error = None\<rparr>)"

text \<open>\<^verbatim>\<open>except Exception as e\<close>: the method returns in every case.\<close>

definition covariance_drift :: "lib \<Rightarrow> dataframe \<Rightarrow> dataframe \<Rightarrow> method_result" where
  "covariance_drift L reference current =
     (case elliptic_envelope_ratio L reference current of
        Inr outlier_ratio \<Rightarrow>
          \<lparr>r_drift_detected = Some (float_gt outlier_ratio (Fin 0.2)),
           r_drift_score = Some outlier_ratio,
           r_p_values = None,
           r_psi_scores = None,
           r_method = Some ''covariance_drift'',
           r_error = None\<rparr>
      | Inl e \<Rightarrow>
          \<lparr>r_drift_detected = Some False,
           r_drift_score = Some (Fin 0),
           r_p_values = None,
           r_psi_scores = None,
           r_method = Some ''covariance_drift'',
           r_error = Some (str_exn e)\<rparr>)"

definition classifier_body ::
    "lib \<Rightarrow> dataframe \<Rightarrow> dataframe \<Rightarrow> string \<Rightarrow> exn + pyfloat" where
  "classifier_body L reference current target_column =
     (case import_classifier L of
        Inl e \<Rightarrow> Inl e
      | Inr u \<Rightarrow>
     (case df_drop reference target_column of
        Inl e \<Rightarrow> Inl e
      | Inr X_ref \<Rightarrow>
     (case df_drop current target_column of
        Inl e \<Rightarrow> Inl e
      | Inr X_curr \<Rightarrow> cross_val_auc L X_ref X_curr)))"

definition classifier_drift ::
    "lib \<Rightarrow> dataframe \<Rightarrow> dataframe \<Rightarrow> string \<Rightarrow> method_result" where
  "classifier_drift L reference current target_column =
     (case classifier_body L reference current target_column of
        Inr mean_auc \<Rightarrow>
          \<lparr>r_drift_detected = Some (float_gt mean_auc (Fin 0.7)),
           r_drift_score = Some mean_auc,
           r_p_values = None,
           r_psi_scores = None,
           r_method = Some ''classifier_drift'',
           r_error = None\<rparr>
      | Inl e \<Rightarrow>
          \<lparr>r_drift_detected = Some False,
           r_drift_score = Some (Fin 0),
           r_p_values = None,
           r_psi_scores = None,
           r_method = Some ''classifier_drift'',
           r_error = Some (str_exn e)\<rparr>)"

section \<open>The ensemble decision\<close>

text \<open>The dict \<^verbatim>\<open>weights\<close> of \<^verbatim>\<open>_ensemble_detection\<close>, a local constant.\<close>

definition weights :: "(string \<times> real) list" where
  "weights =
     [(''ks_test'', 0.2),
      (''psi'', 0.25),
      (''mmd'', 0.2),
      (''isolation_forest'', 0.15),
      (''covariance_drift'', 0.1),
      (''classifier_drift'', 0.1)]"

text \<open>\<^verbatim>\<open>weights.get(method, 0.1)\<close>\<close>

definition weights_get :: "string \<Rightarrow> real" where
  "weights_get m = (case map_of weights m of Some w \<Rightarrow> w | None \<Rightarrow> 0.1)"

text \<open>
  The variables of the loop over \<^verbatim>\<open>results.items()\<close>. The Python set
  \<^verbatim>\<open>features_affected\<close> is a list without duplicates; its order in Python is the
  set's iteration order, which the model does not fix, so what is proved about it is
  about its elements only.
\<close>

record ensemble_acc =
  total_weight :: real
  weighted_score :: pyfloat
  drift_votes :: real
  acc_features :: "string list"

definition high_psi_features :: "(string \<times> real) list \<Rightarrow> string list" where
  "high_psi_features psi_scores = map fst (filter (\<lambda>(f, score). score > 0.1) psi_scores)"

definition ensemble_step :: "string \<times> method_result \<Rightarrow> ensemble_acc \<Rightarrow> ensemble_acc" where
  "ensemble_step item acc =
     (let m = fst item;
          result = snd item;
          acc1 = (if r_drift_detected result = Some True
                  then acc\<lparr>drift_votes := drift_votes acc + weights_get m\<rparr>
                  else acc);
          acc2 = (case r_drift_score result of
                    Some s \<Rightarrow>
                      acc1\<lparr>weighted_score :=
                             float_add (weighted_score acc1) (float_mul s (Fin (weights_get m))),
                           total_weight := total_weight acc1 + weights_get m\<rparr>
                  | None \<Rightarrow> acc1)
      in (case r_psi_scores result of
            Some psi_scores \<Rightarrow>
              acc2\<lparr>acc_features := remdups (acc_features acc2 @ high_psi_features psi_scores)\<rparr>
          | None \<Rightarrow> acc2))"

fun ensemble_loop :: "results \<Rightarrow> ensemble_acc \<Rightarrow> ensemble_acc" where
  "ensemble_loop [] acc = acc"
| "ensemble_loop (item # rest) acc = ensemble_loop rest (ensemble_step item acc)"

definition ensemble_init :: ensemble_acc where
  "ensemble_init =
     \<lparr>total_weight = 0, weighted_score = Fin 0, drift_votes = 0, acc_features = []\<rparr>"

text \<open>
  The generator of \<^verbatim>\<open>_determine_drift_type\<close>:
  \<^verbatim>\<open>any(results[method]["drift_detected"] for method in [...] if method in results)\<close>.
  \<^verbatim>\<open>any\<close> stops at the first true value; a result without the key raises KeyError
  when it is reached.
\<close>

fun any_detected :: "results \<Rightarrow> string list \<Rightarrow> exn + bool" where
  "any_detected rs [] = Inr False"
| "any_detected rs (m # ms) =
     (case map_of rs m of
        None \<Rightarrow> any_detected rs ms
      | Some r \<Rightarrow>
          (case r_drift_detected r of
             None \<Rightarrow> Inl (Exn KeyError ''drift_detected'')
           | Some True \<Rightarrow> Inr True
           | Some False \<Rightarrow> any_detected rs ms))"

definition determine_drift_type ::
    "'c MultiModalDriftDetector \<Rightarrow> results \<Rightarrow> dataframe \<Rightarrow> dataframe \<Rightarrow> exn + string" where
  "determine_drift_type self rs reference current =
     (case any_detected rs [''ks_test'', ''psi'', ''mmd''] of
        Inl e \<Rightarrow> Inl e
      | Inr covariate_drift \<Rightarrow>
          (let concept_drift =
                 (case map_of rs ''classifier_drift'' of
                    None \<Rightarrow> False
                  | Some r \<Rightarrow> r_drift_detected r = Some True)
           in Inr (if covariate_drift \<and> concept_drift then ''covariate_and_concept_drift''
                   else if covariate_drift then ''covariate_drift''
                   else if concept_drift then ''concept_drift''
                   else ''no_drift'')))"

definition ensemble_detection ::
    "'c MultiModalDriftDetector \<Rightarrow> results \<Rightarrow> dataframe \<Rightarrow> dataframe \<Rightarrow> exn + DriftResult" where
  "ensemble_detection self rs reference current =
     (let acc = ensemble_loop rs ensemble_init;
          ensemble_score =
            (if total_weight acc > 0
             then float_div (weighted_score acc) (Fin (total_weight acc)) else Fin 0);
          ensemble_drift = (drift_votes acc > 0.5)
      in (case determine_drift_type self rs reference current of
            Inl e \<Rightarrow> Inl e
          | Inr dt \<Rightarrow>
              Inr \<lparr>drift_detected = ensemble_drift,
                   drift_score = ensemble_score,
                   drift_type = dt,
                   features_affected = acc_features acc,
                   confidence = py_min ensemble_score (Fin 1),
                   metadata = [(''individual_results'', rs)]\<rparr>))"

text \<open>
  \<^verbatim>\<open>if target_column:\<close> holds for a string that is neither \<^verbatim>\<open>None\<close> nor empty.
\<close>

definition truthy :: "string option \<Rightarrow> bool" where
  "truthy t = (case t of None \<Rightarrow> False | Some s \<Rightarrow> s \<noteq> [])"

definition detect_drift ::
    "lib \<Rightarrow> 'c MultiModalDriftDetector \<Rightarrow> dataframe \<Rightarrow> dataframe \<Rightarrow> string option \<Rightarrow>
     exn + DriftResult" where
  "detect_drift L self reference_data current_data target_column =
     (case ks_test_drift L reference_data current_data of
        Inl e \<Rightarrow> Inl e
      | Inr ks_result \<Rightarrow>
     (case psi_drift L reference_data current_data of
        Inl e \<Rightarrow> Inl e
      | Inr psi_result \<Rightarrow>
     (case mmd_drift L reference_data current_data of
        Inl e \<Rightarrow> Inl e
      | Inr mmd_result \<Rightarrow>
     (case isolation_forest_drift L reference_data current_data of
        Inl e \<Rightarrow> Inl e
      | Inr iso_result \<Rightarrow>
          (let cov_result = covariance_drift L reference_data current_data;
               rs = [(''ks_test'', ks_result), (''psi'', psi_result), (''mmd'', mmd_result),
                     (''isolation_forest'', iso_result), (''covariance_drift'', cov_result)];
               rs' = (if truthy target_column
                      then rs @ [(''classifier_drift'',
                             classifier_drift L reference_data current_data (the target_column))]
                      else rs)
           in ensemble_detection self rs' reference_data current_data)))))"

section \<open>The drift detection service\<close>

text \<open>
  \<^verbatim>\<open>str(n)\<close> for the length of a list, \<^verbatim>\<open>sep.join(xs)\<close>, and the substring test
  \<^verbatim>\<open>needle in text\<close>.
\<close>

definition digit_char :: "nat \<Rightarrow> char" where
  "digit_char d = ''0123456789'' ! d"

function str_nat :: "nat \<Rightarrow> string" where
  "str_nat n = (if n < 10 then [digit_char n] else str_nat (n div 10) @ [digit_char (n mod 10)])"
  by pat_completeness auto
termination
  by (relation "measure (\<lambda>n. n)") auto

fun str_join :: "string \<Rightarrow> string list \<Rightarrow> string" where
  "str_join sep [] = []"
| "str_join sep [x] = x"
| "str_join sep (x # y # ys) = x @ sep @ str_join sep (y # ys)"

fun str_contains :: "string \<Rightarrow> string \<Rightarrow> bool" where
  "str_contains needle [] = (needle = [])"
| "str_contains needle (c # cs) = (prefix needle (c # cs) \<or> str_contains needle cs)"

definition generate_recommendation :: "DriftResult \<Rightarrow> string" where
  "generate_recommendation result =
     (if \<not> drift_detected result then ''No action needed. Model performance is stable.''
      else
        (let recommendations = [];
             recommendations =
               (if str_contains ''covariate_drift'' (drift_type result)
                then recommendations @
                  [''Retrain model with new data distribution. '' @
                   str_nat (length (features_affected result)) @ '' features affected.'']
                else recommendations);
             recommendations =
               (if str_contains ''concept_drift'' (drift_type result)
                then recommendations @
                  [''Consider updating model architecture or features to adapt to concept drift.'']
                else recommendations);
             recommendations =
               (if float_gt (drift_score result) (Fin 0.8)
                then recommendations @
                  [''URGENT: Significant drift detected. Consider immediate model retraining and evaluation.'']
                else recommendations);
             recommendations =
               (if features_affected result \<noteq> []
                then recommendations @
                  [''Focus on features: '' @ str_join '', '' (take 5 (features_affected result))]
                else recommendations)
         in if recommendations \<noteq> [] then str_join '' | '' recommendations
            else ''Monitor closely.''))"

text \<open>
  The request and the response of the service, and the service object with its two
  dicts. \<^verbatim>\<open>pd.DataFrame(request.current_data)\<close> and the MLflow client are
  collaborators outside the repository: \<open>pd_DataFrame\<close> and \<open>mlflow_client\<close> are
  parameters. \<^verbatim>\<open>update_metrics\<close> writes the Prometheus gauges and
  \<^verbatim>\<open>log_to_mlflow\<close> writes a run, swallowing every exception; neither changes the
  service object nor the value returned, and they are left out of the model. The
  module names \<^verbatim>\<open>MultiModalDriftDetector\<close> and \<^verbatim>\<open>DriftResult\<close> without
  importing them; they are read as the class and the dataclass of
  \<^verbatim>\<open>advanced_drift_detector.py\<close>.
\<close>

record 'c DriftDetectionRequest =
  model_name :: string
  current_data :: "(string \<times> cell) list list"
  reference_data_id :: string
  detection_config :: 'c

record DriftDetectionResponse =
  resp_drift_detected :: bool
  resp_drift_score :: pyfloat
  resp_drift_type :: string
  resp_features_affected :: "string list"
  resp_confidence :: pyfloat
  resp_recommendation :: string

record service_env =
  pd_DataFrame :: "(string \<times> cell) list list \<Rightarrow> exn + dataframe"
  mlflow_client :: "exn + unit"

record 'c DriftDetectionService =
  detectors :: "string \<rightharpoonup> 'c MultiModalDriftDetector"
  reference_data_cache :: "string \<rightharpoonup> dataframe"

definition DriftDetectionService_init :: "'c DriftDetectionService" where
  "DriftDetectionService_init = \<lparr>detectors = Map.empty, reference_data_cache = Map.empty\<rparr>"

text \<open>
  \<^verbatim>\<open>load_reference_data\<close>: the cached frame, or the placeholder
  \<^verbatim>\<open>pd.DataFrame()\<close>, which is stored in the cache; an exception of the client is
  logged and raised again.
\<close>

definition load_reference_data ::
    "service_env \<Rightarrow> 'c DriftDetectionService \<Rightarrow> string \<Rightarrow>
     (exn + dataframe) \<times> 'c DriftDetectionService" where
  "load_reference_data E self rid =
     (case reference_data_cache self rid of
        Some df \<Rightarrow> (Inr df, self)
      | None \<Rightarrow>
          (case mlflow_client E of
             Inl e \<Rightarrow> (Inl e, self)
           | Inr u \<Rightarrow>
               (Inr [], self\<lparr>reference_data_cache := (reference_data_cache self)(rid \<mapsto> [])\<rparr>)))"

definition service_detect_drift ::
    "lib \<Rightarrow> service_env \<Rightarrow> 'c DriftDetectionService \<Rightarrow> 'c DriftDetectionRequest \<Rightarrow>
     (exn + DriftDetectionResponse) \<times> 'c DriftDetectionService" where
  "service_detect_drift L E self request =
     (case pd_DataFrame E (current_data request) of
        Inl e \<Rightarrow> (Inl e, self)
      | Inr current_df \<Rightarrow>
     (case load_reference_data E self (reference_data_id request) of
        (Inl e, self1) \<Rightarrow> (Inl e, self1)
      | (Inr reference_df, self1) \<Rightarrow>
          (let (detector, self2) =
                 (case detectors self1 (model_name request) of
                    Some d \<Rightarrow> (d, self1)
                  | None \<Rightarrow>
                      (let d = MultiModalDriftDetector_init (detection_config request)
                       in (d, self1\<lparr>detectors := (detectors self1)(model_name request \<mapsto> d)\<rparr>)))
           in (case detect_drift L detector reference_df current_df None of
                 Inl e \<Rightarrow> (Inl e, self2)
               | Inr result \<Rightarrow>
                   (Inr \<lparr>resp_drift_detected = drift_detected result,
                         resp_drift_score = drift_score result,
                         resp_drift_type = drift_type result,
                         resp_features_affected = features_affected result,
                         resp_confidence = confidence result,
                         resp_recommendation = generate_recommendation result\<rparr>,
                    self2)))))"

section \<open>Example inputs\<close>

text \<open>
  Two frames of five rows with a feature \<open>x\<close> and a label \<open>y\<close>. The current frame
  has \<open>x\<close> shifted by 2, as in the mean-shift scenario; the labels are the same.
\<close>

definition x_ref :: "cell list" where
  "x_ref = [Num 0, Num 0.25, Num 0.5, Num 0.75, Num 1]"

definition x_cur :: "cell list" where
  "x_cur = [Num 2, Num 2.25, Num 2.5, Num 2.75, Num 3]"

definition y_col :: "cell list" where
  "y_col = [Num 0, Num 1, Num 0, Num 1, Num 0]"

definition frame_ref :: dataframe where
  "frame_ref = [(''x'', \<lparr>dtype = Float64, cells = x_ref\<rparr>),
                (''y'', \<lparr>dtype = Int64, cells = y_col\<rparr>)]"

definition frame_cur :: dataframe where
  "frame_cur = [(''x'', \<lparr>dtype = Float64, cells = x_cur\<rparr>),
                (''y'', \<lparr>dtype = Int64, cells = y_col\<rparr>)]"

text \<open>A current frame that lacks the numeric column \<open>x\<close> of the reference.\<close>

definition frame_no_x :: dataframe where
  "frame_no_x = [(''y'', \<lparr>dtype = Int64, cells = y_col\<rparr>)]"

text \<open>A current frame of one row, and its feature columns without the label.\<close>

definition x_one :: "cell list" where
  "x_one = [Num 0.5]"

definition y_one :: "cell list" where
  "y_one = [Num 0]"

definition frame_one :: dataframe where
  "frame_one = [(''x'', \<lparr>dtype = Float64, cells = x_one\<rparr>),
                (''y'', \<lparr>dtype = Int64, cells = y_one\<rparr>)]"

definition features_one :: dataframe where
  "features_one = [(''x'', \<lparr>dtype = Float64, cells = x_one\<rparr>)]"

text \<open>
  The library routines at these inputs. The values of the KS test, the bin edges and
  the counts are the exact ones; the kernel means are rounded to four digits; the
  anomaly ratios depend on the fitted models and are representative values.
  \<^item> \<open>ks_2samp\<close>: equal samples give statistic 0 and p-value 1; the two disjoint
    samples of \<open>x\<close> give statistic 1 and the exact p-value 2/252; a column of the
    reference against the one value of the one-row frame gives statistic 0.4 and
    p-value 1; an empty sample raises ValueError.
  \<^item> \<open>histogram_bin_edges\<close>: both reference columns range over [0, 1], so the edges
    are 0, 0.1, ..., 1.
  \<^item> \<open>histogram\<close>: the counts of the columns in these ten bins; every value of the
    shifted \<open>x\<close> lies outside the edges and is not counted.
  \<^item> \<open>kernel_mean\<close>: the means of the RBF Gram matrices of the two-column frames;
    an empty frame raises ValueError, as scikit-learn's input validation does.
  \<^item> \<open>isolation_forest_ratio\<close>: one row in five of the reference scored on itself
    is flagged (the contamination of 0.1 puts the threshold between the two lowest
    scores), every row of the shifted frame is, the row of the one-row frame is not;
    an empty reference raises ValueError.
  \<^item> \<open>elliptic_envelope_ratio\<close>: no row of the reference scored on itself and not
    the row of the one-row frame is flagged, every row of the shifted frame is; an
    empty reference raises ValueError.
  \<^item> \<open>cross_val_auc\<close>: 0.5 for equal frames, where each test fold holds a row and
    its copy; 1 for the separable frames; NaN for the one-row frame, where four of the
    five test folds hold one class and cannot be scored.
  At any other input the routines return a fixed default that no example reaches.
\<close>

definition bin_edges_01 :: "real list" where
  "bin_edges_01 = [0, 0.1, 0.2, 0.3, 0.4, 0.5, 0.6, 0.7, 0.8, 0.9, 1]"

definition x_ref_counts :: "nat list" where
  "x_ref_counts = [1, 0, 1, 0, 0, 1, 0, 1, 0, 1]"

definition y_counts :: "nat list" where
  "y_counts = [3, 0, 0, 0, 0, 0, 0, 0, 0, 2]"

definition no_counts :: "nat list" where
  "no_counts = [0, 0, 0, 0, 0, 0, 0, 0, 0, 0]"

definition x_one_counts :: "nat list" where
  "x_one_counts = [0, 0, 0, 0, 0, 1, 0, 0, 0, 0]"

definition y_one_counts :: "nat list" where
  "y_one_counts = [1, 0, 0, 0, 0, 0, 0, 0, 0, 0]"

definition example_lib :: lib where
  "example_lib =
     \<lparr>ks_2samp = (\<lambda>a b.
        if a = [] \<or> b = [] then Inl (Exn ValueError ''Data passed to ks_2samp must not be empty'')
        else if a = b then Inr (Fin 0, Fin 1)
        else if b = x_one \<or> b = y_one then Inr (Fin 0.4, Fin 1)
        else Inr (Fin 1, Fin (2 / 252))),
      histogram_bin_edges = (\<lambda>a. Inr bin_edges_01),
      histogram = (\<lambda>a bins.
        if a = x_ref then Inr x_ref_counts
        else if a = y_col then Inr y_counts
        else if a = x_one then Inr x_one_counts
        else if a = y_one then Inr y_one_counts
        else Inr no_counts),
      import_kernels = Inr (),
      df_sample = (\<lambda>n df. Inr df),
      kernel_mean = (\<lambda>a b.
        if a = [] \<or> b = [] then Inl (Exn ValueError ''at least one array or dtype is required'')
        else if a = b then (if a = frame_one then Inr (Fin 1) else Inr (Fin 0.7217))
        else if b = frame_one then Inr (Fin 0.7882)
        else Inr (Fin 0.1480)),
      isolation_forest_ratio = (\<lambda>a b.
        if a = [] then Inl (Exn ValueError ''at least one array or dtype is required'')
        else if a = b then Inr (Fin 0.2)
        else if b = frame_one then Inr (Fin 0)
        else Inr (Fin 1)),
      elliptic_envelope_ratio = (\<lambda>a b.
        if a = [] then Inl (Exn ValueError ''at least one array or dtype is required'')
        else if a = b then Inr (Fin 0)
        else if b = frame_one then Inr (Fin 0)
        else Inr (Fin 1)),
      import_classifier = Inr (),
      cross_val_auc = (\<lambda>a b.
        if a = b then Inr (Fin 0.5)
        else if b = features_one then Inr NaN
        else Inr (Fin 1))\<rparr>"

definition example_detector :: "(string \<times> real) list MultiModalDriftDetector" where
  "example_detector = MultiModalDriftDetector_init [(''psi'', 0)]"

section \<open>Closed forms and example results\<close>

text \<open>
  What the loop of \<^verbatim>\<open>_ensemble_detection\<close> adds up, written as sums over the
  results: the weights of the results whose \<^verbatim>\<open>drift_detected\<close> is true, and the
  weights and weighted scores of the results that hold a \<^verbatim>\<open>drift_score\<close>.
\<close>

definition votes_sum :: "results \<Rightarrow> real" where
  "votes_sum rs =
     sum_list (map (\<lambda>item. weights_get (fst item))
       (filter (\<lambda>item. r_drift_detected (snd item) = Some True) rs))"

definition weight_sum :: "results \<Rightarrow> real" where
  "weight_sum rs =
     sum_list (map (\<lambda>item. weights_get (fst item))
       (filter (\<lambda>item. \<not> Option.is_none (r_drift_score (snd item))) rs))"

text \<open>
  The weighted score is NaN as soon as one result holds the score NaN, and the sum of
  the weighted scores otherwise.
\<close>

definition has_nan :: "results \<Rightarrow> bool" where
  "has_nan rs = list_ex (\<lambda>item. r_drift_score (snd item) = Some NaN) rs"

definition finite_score_sum :: "results \<Rightarrow> real" where
  "finite_score_sum rs =
     sum_list (map (\<lambda>item. case r_drift_score (snd item) of
                            Some (Fin s) \<Rightarrow> s * weights_get (fst item)
                          | Some NaN \<Rightarrow> 0
                          | None \<Rightarrow> 0) rs)"

definition score_sum :: "results \<Rightarrow> pyfloat" where
  "score_sum rs = (if has_nan rs then NaN else Fin (finite_score_sum rs))"

text \<open>The results that carry no \<^verbatim>\<open>error\<close> key.\<close>

definition without_errors :: "results \<Rightarrow> results" where
  "without_errors rs = filter (\<lambda>item. r_error (snd item) = None) rs"

text \<open>
  The result a detector returns when it has caught an exception, and a result without
  error.
\<close>

definition error_result :: "string \<Rightarrow> string \<Rightarrow> method_result" where
  "error_result name msg =
     \<lparr>r_drift_detected = Some False, r_drift_score = Some (Fin 0), r_p_values = None,
      r_psi_scores = None, r_method = Some name, r_error = Some msg\<rparr>"

definition plain_result :: "string \<Rightarrow> bool \<Rightarrow> real \<Rightarrow> method_result" where
  "plain_result name detected score =
     \<lparr>r_drift_detected = Some detected, r_drift_score = Some (Fin score), r_p_values = None,
      r_psi_scores = None, r_method = Some name, r_error = None\<rparr>"

text \<open>A run in which the covariance envelope failed to fit and PSI alone fired.\<close>

definition partial_failure_results :: results where
  "partial_failure_results =
     [(''ks_test'', plain_result ''ks_test'' False 0.1),
      (''psi'', (plain_result ''psi'' True 0.9)\<lparr>r_psi_scores := Some [(''x'', 0.9)]\<rparr>),
      (''mmd'', plain_result ''mmd'' False 0.01),
      (''isolation_forest'', plain_result ''isolation_forest'' False 0.1),
      (''covariance_drift'', error_result ''covariance_drift'' ''singular covariance matrix'')]"

text \<open>
  Results in which KS, PSI and the isolation forest can fire; the flag of PSI is the
  argument.
\<close>

definition psi_flag_results :: "bool \<Rightarrow> results" where
  "psi_flag_results flag =
     [(''ks_test'', plain_result ''ks_test'' True 0.4),
      (''psi'', plain_result ''psi'' flag 0.3),
      (''mmd'', plain_result ''mmd'' False 0.01),
      (''isolation_forest'', plain_result ''isolation_forest'' True 0.2),
      (''covariance_drift'', plain_result ''covariance_drift'' False 0.1)]"

text \<open>
  Six results that are all the result of a caught exception, and six results of
  detectors that ran and found nothing.
\<close>

definition method_names :: "string list" where
  "method_names = [''ks_test'', ''psi'', ''mmd'', ''isolation_forest'', ''covariance_drift'',
     ''classifier_drift'']"

definition all_failed_results :: results where
  "all_failed_results = map (\<lambda>name. (name, error_result name ''failed'')) method_names"

definition all_quiet_results :: results where
  "all_quiet_results = map (\<lambda>name. (name, plain_result name False 0)) method_names"

text \<open>Every field of a DriftResult but the per-method results kept in its metadata.\<close>

definition summary ::
    "DriftResult \<Rightarrow> bool \<times> pyfloat \<times> string \<times> string list \<times> pyfloat \<times> string list"
    where
  "summary res =
     (drift_detected res, drift_score res, drift_type res, features_affected res,
      confidence res, map fst (metadata res))"

text \<open>The result of a caught exception, as a predicate on an entry of the results.\<close>

definition is_failure :: "string \<times> method_result \<Rightarrow> bool" where
  "is_failure item =
     (r_drift_detected (snd item) = Some False \<and> r_drift_score (snd item) = Some (Fin 0)
      \<and> r_psi_scores (snd item) = None \<and> \<not> Option.is_none (r_error (snd item)))"

text \<open>
  The per-method results and the outcome of three runs on the example frames with the
  target column \<open>y\<close>: the shifted current frame, the reference against itself, and
  the one-row current frame.
\<close>

definition shifted_results :: results where
  "shifted_results =
     [(''ks_test'',
       (plain_result ''ks_test'' True 1)
         \<lparr>r_p_values := Some [(''x'', Fin (1 / 126)), (''y'', Fin 1)]\<rparr>),
      (''psi'',
       (plain_result ''psi'' True (psi_value x_ref_counts no_counts))
         \<lparr>r_psi_scores := Some [(''x'', psi_value x_ref_counts no_counts), (''y'', 0)]\<rparr>),
      (''mmd'', plain_result ''mmd'' True 1.1474),
      (''isolation_forest'', plain_result ''isolation_forest'' True 1),
      (''covariance_drift'', plain_result ''covariance_drift'' True 1),
      (''classifier_drift'', plain_result ''classifier_drift'' True 1)]"

definition shifted_outcome :: DriftResult where
  "shifted_outcome =
     \<lparr>drift_detected = True,
      drift_score = Fin (0.25 * psi_value x_ref_counts no_counts + 0.77948),
      drift_type = ''covariate_and_concept_drift'',
      features_affected = [''x''],
      confidence = Fin 1,
      metadata = [(''individual_results'', shifted_results)]\<rparr>"

definition quiet_results :: results where
  "quiet_results =
     [(''ks_test'',
       (plain_result ''ks_test'' False 0)\<lparr>r_p_values := Some [(''x'', Fin 1), (''y'', Fin 1)]\<rparr>),
      (''psi'',
       (plain_result ''psi'' False 0)\<lparr>r_psi_scores := Some [(''x'', 0), (''y'', 0)]\<rparr>),
      (''mmd'', plain_result ''mmd'' False 0),
      (''isolation_forest'', plain_result ''isolation_forest'' True 0.2),
      (''covariance_drift'', plain_result ''covariance_drift'' False 0),
      (''classifier_drift'', plain_result ''classifier_drift'' False 0.5)]"

definition quiet_outcome :: DriftResult where
  "quiet_outcome =
     \<lparr>drift_detected = False,
      drift_score = Fin 0.08,
      drift_type = ''no_drift'',
      features_affected = [],
      confidence = Fin 0.08,
      metadata = [(''individual_results'', quiet_results)]\<rparr>"

definition one_row_results :: results where
  "one_row_results =
     [(''ks_test'',
       (plain_result ''ks_test'' False 0.4)\<lparr>r_p_values := Some [(''x'', Fin 1), (''y'', Fin 1)]\<rparr>),
      (''psi'',
       (plain_result ''psi'' True
          (max (psi_value x_ref_counts x_one_counts) (psi_value y_counts y_one_counts)))
         \<lparr>r_psi_scores := Some [(''x'', psi_value x_ref_counts x_one_counts),
                                  (''y'', psi_value y_counts y_one_counts)]\<rparr>),
      (''mmd'', plain_result ''mmd'' True 0.1453),
      (''isolation_forest'', plain_result ''isolation_forest'' False 0),
      (''covariance_drift'', plain_result ''covariance_drift'' False 0),
      (''classifier_drift'',
       (plain_result ''classifier_drift'' False 0)\<lparr>r_drift_score := Some NaN\<rparr>)]"

definition one_row_outcome :: DriftResult where
  "one_row_outcome =
     \<lparr>drift_detected = False,
      drift_score = NaN,
      drift_type = ''covariate_drift'',
      features_affected = [''x'', ''y''],
      confidence = NaN,
      metadata = [(''individual_results'', one_row_results)]\<rparr>"

text \<open>A bound on every \<^verbatim>\<open>drift_score\<close> that the results hold as a number.\<close>

definition scores_at_least :: "real \<Rightarrow> results \<Rightarrow> bool" where
  "scores_at_least lo rs =
     list_all (\<lambda>item. case r_drift_score (snd item) of
                       Some (Fin s) \<Rightarrow> lo \<le> s
                     | Some NaN \<Rightarrow> True
                     | None \<Rightarrow> True) rs"

definition scores_at_most :: "real \<Rightarrow> results \<Rightarrow> bool" where
  "scores_at_most hi rs =
     list_all (\<lambda>item. case r_drift_score (snd item) of
                       Some (Fin s) \<Rightarrow> s \<le> hi
                     | Some NaN \<Rightarrow> True
                     | None \<Rightarrow> True) rs"

text \<open>The dict \<^verbatim>\<open>results\<close> that \<^verbatim>\<open>detect_drift\<close> hands to the aggregation.\<close>

definition run_results ::
    "lib \<Rightarrow> dataframe \<Rightarrow> dataframe \<Rightarrow> string option \<Rightarrow>
     method_result \<Rightarrow> method_result \<Rightarrow> method_result \<Rightarrow> method_result \<Rightarrow> results" where
  "run_results L reference current target ks_result psi_result mmd_result iso_result =
     [(''ks_test'', ks_result), (''psi'', psi_result), (''mmd'', mmd_result),
      (''isolation_forest'', iso_result),
      (''covariance_drift'', covariance_drift L reference current)]
     @ (if truthy target
        then [(''classifier_drift'', classifier_drift L reference current (the target))]
        else [])"

text \<open>
  The drift-type label as the specification words it: a method fired when the results
  hold it with \<^verbatim>\<open>drift_detected\<close> true; the label is chosen from the covariate
  and the concept component.
\<close>

definition fired :: "results \<Rightarrow> string \<Rightarrow> bool" where
  "fired rs m = (case map_of rs m of None \<Rightarrow> False | Some r \<Rightarrow> r_drift_detected r = Some True)"

definition drift_label :: "bool \<Rightarrow> bool \<Rightarrow> string" where
  "drift_label covariate concept =
     (if covariate \<and> concept then ''covariate_and_concept_drift''
      else if covariate then ''covariate_drift''
      else if concept then ''concept_drift''
      else ''no_drift'')"

text \<open>
  The shifted run without a target column, and a service whose cache holds the
  reference frame; the request carries the five rows of the shifted frame.
\<close>

definition shifted_outcome_no_target :: DriftResult where
  "shifted_outcome_no_target =
     \<lparr>drift_detected = True,
      drift_score = Fin ((0.25 * psi_value x_ref_counts no_counts + 0.67948) / 0.9),
      drift_type = ''covariate_drift'',
      features_affected = [''x''],
      confidence = Fin 1,
      metadata = [(''individual_results'', butlast shifted_results)]\<rparr>"

definition example_rows :: "(string \<times> cell) list list" where
  "example_rows =
     [[(''x'', Num 2), (''y'', Num 0)],
      [(''x'', Num 2.25), (''y'', Num 1)],
      [(''x'', Num 2.5), (''y'', Num 0)],
      [(''x'', Num 2.75), (''y'', Num 1)],
      [(''x'', Num 3), (''y'', Num 0)]]"

definition example_env :: service_env where
  "example_env =
     \<lparr>pd_DataFrame = (\<lambda>rows. if rows = example_rows then Inr frame_cur else Inr []),
      mlflow_client = Inr ()\<rparr>"

definition example_request :: "(string \<times> real) list DriftDetectionRequest" where
  "example_request =
     \<lparr>model_name = ''churn'', current_data = example_rows,
      reference_data_id = ''train-2024'', detection_config = [(''psi'', 0)]\<rparr>"

definition warm_service :: "(string \<times> real) list DriftDetectionService" where
  "warm_service =
     \<lparr>detectors = Map.empty, reference_data_cache = [''train-2024'' \<mapsto> frame_ref]\<rparr>"

text \<open>
  The columns that the loops of KS and PSI work on: the names of the reference whose
  column has the dtype float64 or int64.
\<close>

definition numeric_in :: "dataframe \<Rightarrow> string \<Rightarrow> bool" where
  "numeric_in df c = (case map_of df c of None \<Rightarrow> False | Some col \<Rightarrow> is_numeric col)"

definition numeric_columns :: "dataframe \<Rightarrow> string list" where
  "numeric_columns df = filter (numeric_in df) (df_columns df)"

text \<open>
  The library routines raise nothing on the columns that the two frames share: the
  KS test on a pair of columns; the bin edges and the counts of the reference column,
  and the counts of the current column where it exists.
\<close>

definition ks_ok :: "lib \<Rightarrow> dataframe \<Rightarrow> dataframe \<Rightarrow> string \<Rightarrow> bool" where
  "ks_ok L reference current c =
     (case map_of reference c of
        None \<Rightarrow> True
      | Some rc \<Rightarrow>
          (case map_of current c of
             None \<Rightarrow> True
           | Some cc \<Rightarrow> \<not> isl (ks_2samp L (dropna rc) (dropna cc))))"

definition ks_succeeds :: "lib \<Rightarrow> dataframe \<Rightarrow> dataframe \<Rightarrow> bool" where
  "ks_succeeds L reference current =
     list_all (ks_ok L reference current) (numeric_columns reference)"

definition psi_ok :: "lib \<Rightarrow> dataframe \<Rightarrow> dataframe \<Rightarrow> string \<Rightarrow> bool" where
  "psi_ok L reference current c =
     (case map_of reference c of
        None \<Rightarrow> True
      | Some rc \<Rightarrow>
          (case histogram_bin_edges L (dropna rc) of
             Inl e \<Rightarrow> False
           | Inr bins \<Rightarrow>
               \<not> isl (histogram L (dropna rc) bins)
               \<and> (case map_of current c of
                     None \<Rightarrow> True
                   | Some cc \<Rightarrow> \<not> isl (histogram L (dropna cc) bins))))"

definition psi_succeeds :: "lib \<Rightarrow> dataframe \<Rightarrow> dataframe \<Rightarrow> bool" where
  "psi_succeeds L reference current =
     list_all (psi_ok L reference current) (numeric_columns reference)"

text \<open>The shifted frame with one more column, which the reference does not have.\<close>

definition frame_cur_extra :: dataframe where
  "frame_cur_extra = frame_cur @ [(''z'', \<lparr>dtype = Float64, cells = x_ref\<rparr>)]"

text \<open>
  The messages of \<^verbatim>\<open>generate_recommendation\<close> and the order in which the parts
  are joined, for the drift types \<^verbatim>\<open>no_drift\<close>, \<^verbatim>\<open>covariate_drift\<close> and
  \<^verbatim>\<open>concept_drift\<close>.
\<close>

definition no_action_message :: string where
  "no_action_message = ''No action needed. Model performance is stable.''"

definition retrain_message :: "nat \<Rightarrow> string" where
  "retrain_message n =
     ''Retrain model with new data distribution. '' @ str_nat n @ '' features affected.''"

definition concept_message :: string where
  "concept_message =
     ''Consider updating model architecture or features to adapt to concept drift.''"

definition urgent_message :: string where
  "urgent_message =
     ''URGENT: Significant drift detected. Consider immediate model retraining and evaluation.''"

definition focus_message :: "string list \<Rightarrow> string" where
  "focus_message features = ''Focus on features: '' @ str_join '', '' (take 5 features)"

definition recommendation_parts :: "DriftResult \<Rightarrow> string list" where
  "recommendation_parts result =
     (if drift_type result = ''covariate_drift''
      then [retrain_message (length (features_affected result))] else [])
     @ (if drift_type result = ''concept_drift'' then [concept_message] else [])
     @ (if float_gt (drift_score result) (Fin 0.8) then [urgent_message] else [])
     @ (if features_affected result \<noteq> [] then [focus_message (features_affected result)]
        else [])"

text \<open>
  A result with drift, a score above 0.8 and six affected features; and a result
  without drift that has a score above 0.8 and an affected feature (PSI fired alone).
\<close>

definition urgent_example :: DriftResult where
  "urgent_example =
     \<lparr>drift_detected = True, drift_score = Fin 0.9, drift_type = ''covariate_drift'',
      features_affected = [''a'', ''b'', ''c'', ''d'', ''e'', ''f''], confidence = Fin 0.9,
      metadata = []\<rparr>"

definition stable_example :: DriftResult where
  "stable_example =
     \<lparr>drift_detected = False, drift_score = Fin 0.9, drift_type = ''covariate_drift'',
      features_affected = [''a''], confidence = Fin 0.9, metadata = []\<rparr>"



section \<open>Facts about the ensemble loop\<close>

lemma weights_get_simps:
  "weights_get ''ks_test'' = 0.2"
  "weights_get ''psi'' = 0.25"
  "weights_get ''mmd'' = 0.2"
  "weights_get ''isolation_forest'' = 0.15"
  "weights_get ''covariance_drift'' = 0.1"
  "weights_get ''classifier_drift'' = 0.1"
  by (simp_all add: weights_get_def weights_def)

lemma weights_get_pos: "0 < weights_get m"
  by (simp add: weights_get_def weights_def)

lemma ensemble_loop_drift_votes:
  "drift_votes (ensemble_loop rs acc) = drift_votes acc + votes_sum rs"
  by (induction rs arbitrary: acc)
     (auto simp: votes_sum_def ensemble_step_def Let_def split: option.splits)

lemma ensemble_loop_total_weight:
  "total_weight (ensemble_loop rs acc) = total_weight acc + weight_sum rs"
  by (induction rs arbitrary: acc)
     (auto simp: weight_sum_def ensemble_step_def Let_def split: option.splits)

lemma float_add_assoc: "float_add (float_add a b) c = float_add a (float_add b c)"
  by (cases a; cases b; cases c) simp_all

lemma float_add_zero [simp]: "float_add a (Fin 0) = a"
  by (cases a) simp_all

lemma score_sum_Nil [simp]: "score_sum [] = Fin 0"
  by (simp add: score_sum_def has_nan_def finite_score_sum_def)

lemma score_sum_Cons:
  "score_sum (item # rs) =
     (case r_drift_score (snd item) of
        None \<Rightarrow> score_sum rs
      | Some s \<Rightarrow> float_add (float_mul s (Fin (weights_get (fst item)))) (score_sum rs))"
proof (cases "r_drift_score (snd item)")
  case None
  then show ?thesis
    by (simp add: score_sum_def has_nan_def finite_score_sum_def)
next
  case (Some s)
  then show ?thesis
    by (cases s) (simp_all add: score_sum_def has_nan_def finite_score_sum_def)
qed

lemma ensemble_step_weighted_score:
  "weighted_score (ensemble_step item acc) =
     (case r_drift_score (snd item) of
        None \<Rightarrow> weighted_score acc
      | Some s \<Rightarrow> float_add (weighted_score acc) (float_mul s (Fin (weights_get (fst item)))))"
  by (simp add: ensemble_step_def Let_def split: option.splits)

lemma ensemble_loop_weighted_score:
  "weighted_score (ensemble_loop rs acc) = float_add (weighted_score acc) (score_sum rs)"
proof (induction rs arbitrary: acc)
  case Nil
  then show ?case by simp
next
  case (Cons item rs)
  show ?case
    by (simp add: Cons.IH ensemble_step_weighted_score score_sum_Cons float_add_assoc
        split: option.splits)
qed

lemma float_add_zero_left [simp]: "float_add (Fin 0) a = a"
  by (cases a) simp_all

lemma ensemble_detection_fields:
  assumes "ensemble_detection self rs reference current = Inr res"
  shows "drift_detected res = (votes_sum rs > 0.5)"
    and "drift_score res =
          (if weight_sum rs > 0 then float_div (score_sum rs) (Fin (weight_sum rs)) else Fin 0)"
    and "confidence res = py_min (drift_score res) (Fin 1)"
    and "metadata res = [(''individual_results'', rs)]"
    and "determine_drift_type self rs reference current = Inr (drift_type res)"
  using assms
  by (auto simp: ensemble_detection_def Let_def ensemble_init_def
        ensemble_loop_drift_votes ensemble_loop_total_weight ensemble_loop_weighted_score
      split: sum.splits)

lemma partial_failure_eval:
  "ensemble_detection example_detector partial_failure_results frame_ref frame_cur =
     Inr \<lparr>drift_detected = False, drift_score = Fin (131 / 450),
          drift_type = ''covariate_drift'',
          features_affected = [''x''], confidence = Fin (131 / 450),
          metadata = [(''individual_results'', partial_failure_results)]\<rparr>"
  by (simp add: ensemble_detection_def partial_failure_results_def ensemble_step_def
        ensemble_init_def weights_get_simps determine_drift_type_def plain_result_def
        error_result_def Let_def high_psi_features_def py_min_def)

lemma partial_failure_filtered_eval:
  "ensemble_detection example_detector (without_errors partial_failure_results)
       frame_ref frame_cur =
     Inr \<lparr>drift_detected = False, drift_score = Fin (131 / 400),
          drift_type = ''covariate_drift'',
          features_affected = [''x''], confidence = Fin (131 / 400),
          metadata = [(''individual_results'', without_errors partial_failure_results)]\<rparr>"
  by (simp add: ensemble_detection_def partial_failure_results_def ensemble_step_def
        ensemble_init_def weights_get_simps determine_drift_type_def plain_result_def
        error_result_def Let_def high_psi_features_def without_errors_def py_min_def)

section \<open>C1: which results the aggregation counts\<close>

text \<open>
  C1, as amended. The loop of \<^verbatim>\<open>_ensemble_detection\<close> never reads the
  \<^verbatim>\<open>error\<close> key. Every result whose \<^verbatim>\<open>drift_detected\<close> is true adds its
  weight to \<^verbatim>\<open>drift_votes\<close>, and every result that holds a \<^verbatim>\<open>drift_score\<close>
  adds score times weight to \<^verbatim>\<open>weighted_score\<close> and its weight to
  \<^verbatim>\<open>total_weight\<close>, errored or not. The result a detector returns for a caught
  exception (\<^verbatim>\<open>drift_detected\<close> false, \<^verbatim>\<open>drift_score\<close> 0, \<^verbatim>\<open>error\<close> set)
  therefore adds nothing to the votes and to the weighted score, but it does add its
  weight, which is positive, to \<^verbatim>\<open>total_weight\<close>. The decision is
  \<^verbatim>\<open>drift_votes > 0.5\<close>, and the score is \<^verbatim>\<open>weighted_score / total_weight\<close>
  when \<^verbatim>\<open>total_weight > 0\<close>, else 0; the weighted score is NaN when a result
  holds the score NaN.
\<close>

theorem ensemble_counts_errored_results:
  assumes "ensemble_detection self rs reference current = Inr res"
  shows "drift_detected res = (votes_sum rs > 0.5)
       \<and> drift_score res =
           (if weight_sum rs > 0 then float_div (score_sum rs) (Fin (weight_sum rs))
            else Fin 0)
       \<and> votes_sum (rs1 @ (m, error_result name msg) # rs2) = votes_sum (rs1 @ rs2)
       \<and> score_sum (rs1 @ (m, error_result name msg) # rs2) = score_sum (rs1 @ rs2)
       \<and> weight_sum (rs1 @ (m, error_result name msg) # rs2)
           = weight_sum (rs1 @ rs2) + weights_get m
       \<and> 0 < weights_get m"
proof -
  have "votes_sum (rs1 @ (m, error_result name msg) # rs2) = votes_sum (rs1 @ rs2)"
    by (simp add: votes_sum_def error_result_def)
  moreover have "score_sum (rs1 @ (m, error_result name msg) # rs2) = score_sum (rs1 @ rs2)"
    by (simp add: score_sum_def has_nan_def finite_score_sum_def error_result_def)
  moreover have "weight_sum (rs1 @ (m, error_result name msg) # rs2)
      = weight_sum (rs1 @ rs2) + weights_get m"
    by (simp add: weight_sum_def error_result_def)
  ultimately show ?thesis
    using ensemble_detection_fields(1,2)[OF assms] weights_get_pos[of m] by simp
qed

theorem ensemble_counts_errored_results_witness:
  "\<exists>res. ensemble_detection example_detector partial_failure_results frame_ref frame_cur
          = Inr res
      \<and> drift_score res = Fin (131 / 450)
      \<and> drift_detected res = (votes_sum partial_failure_results > 0.5)
      \<and> drift_score res =
          (if weight_sum partial_failure_results > 0
           then float_div (score_sum partial_failure_results)
                  (Fin (weight_sum partial_failure_results))
           else Fin 0)
      \<and> weight_sum ([] @ (''covariance_drift'', error_result ''covariance_drift'' ''e'') # [])
          = weight_sum ([] @ []) + weights_get ''covariance_drift''"
proof -
  note t = ensemble_counts_errored_results[OF partial_failure_eval,
      of "[]" "''covariance_drift''" "''covariance_drift''" "''e''" "[]"]
  show ?thesis
    by (rule exI, intro conjI, rule partial_failure_eval) (use t in simp_all)
qed

text \<open>
  C1 as stated fails: the errored covariance result of the example adds its weight 0.1
  to \<^verbatim>\<open>total_weight\<close>, so the ensemble score is 0.262 / 0.9, not the 0.262 / 0.8
  that the results without error give.
\<close>

theorem errored_result_excluded_counterexample:
  "total_weight (ensemble_loop partial_failure_results ensemble_init) = 0.9
   \<and> total_weight (ensemble_loop (without_errors partial_failure_results) ensemble_init) = 0.8
   \<and> map_sum id drift_score
        (ensemble_detection example_detector partial_failure_results frame_ref frame_cur)
       = Inr (Fin (131 / 450))
   \<and> map_sum id drift_score
        (ensemble_detection example_detector (without_errors partial_failure_results)
           frame_ref frame_cur)
       = Inr (Fin (131 / 400))"
proof -
  have "total_weight (ensemble_loop partial_failure_results ensemble_init) = 0.9"
    unfolding ensemble_loop_total_weight
    by (simp add: ensemble_init_def weight_sum_def
          partial_failure_results_def plain_result_def error_result_def weights_get_simps)
  moreover have
    "total_weight (ensemble_loop (without_errors partial_failure_results) ensemble_init) = 0.8"
    unfolding ensemble_loop_total_weight
    by (simp add: ensemble_init_def weight_sum_def without_errors_def
          partial_failure_results_def plain_result_def error_result_def weights_get_simps)
  ultimately show ?thesis
    by (simp add: partial_failure_eval partial_failure_filtered_eval)
qed

section \<open>C4: the weights\<close>

text \<open>
  C4, as amended. The weights are constants of \<^verbatim>\<open>_ensemble_detection\<close>, and no
  method reads the configuration the detector was built with: two detectors with any
  two configurations give the same aggregation and the same \<^verbatim>\<open>detect_drift\<close>.
  The weights are ks_test 0.20, psi 0.25, mmd 0.20, isolation_forest 0.15,
  covariance_drift 0.10 and classifier_drift 0.10, and every other method name has the
  weight 0.1.
\<close>

theorem weights_are_constants:
  "ensemble_detection self rs reference current = ensemble_detection self' rs reference current
   \<and> detect_drift L self reference current target = detect_drift L self' reference current target
   \<and> weights_get ''ks_test'' = 0.2 \<and> weights_get ''psi'' = 0.25 \<and> weights_get ''mmd'' = 0.2
   \<and> weights_get ''isolation_forest'' = 0.15 \<and> weights_get ''covariance_drift'' = 0.1
   \<and> weights_get ''classifier_drift'' = 0.1
   \<and> (m \<notin> set (map fst weights) \<longrightarrow> weights_get m = 0.1)"
proof -
  have e: "ensemble_detection self rs' reference current
      = ensemble_detection self' rs' reference current" for rs'
    by (simp add: ensemble_detection_def determine_drift_type_def)
  have "m \<notin> set (map fst weights) \<longrightarrow> weights_get m = 0.1"
    by (auto simp: weights_get_def map_of_eq_None_iff[symmetric] simp del: map_of_eq_None_iff)
  moreover have "detect_drift L self reference current target
      = detect_drift L self' reference current target"
    by (simp add: detect_drift_def Let_def e split: sum.splits)
  ultimately show ?thesis
    using e by (simp add: weights_get_simps)
qed

theorem weights_are_constants_witness:
  "ensemble_detection example_detector (psi_flag_results True) frame_ref frame_cur
     = ensemble_detection (MultiModalDriftDetector_init ()) (psi_flag_results True)
         frame_ref frame_cur
   \<and> ''custom_detector'' \<notin> set (map fst weights)
   \<and> weights_get ''custom_detector'' = 0.1"
proof -
  have n: "''custom_detector'' \<notin> set (map fst weights)"
    by (simp add: weights_def)
  show ?thesis
    using weights_are_constants[of example_detector "psi_flag_results True" frame_ref
        frame_cur "MultiModalDriftDetector_init ()" example_lib None "''custom_detector''"] n
    by simp
qed

text \<open>
  C4 as stated fails: the detector is configured with the weight 0 for PSI, and the
  flag of PSI still decides the vote (0.2 + 0.25 + 0.15 against 0.2 + 0.15).
\<close>

theorem configured_zero_weight_counterexample:
  "config example_detector = [(''psi'', 0)]
   \<and> map_sum id drift_detected
        (ensemble_detection example_detector (psi_flag_results True) frame_ref frame_cur)
       = Inr True
   \<and> map_sum id drift_detected
        (ensemble_detection example_detector (psi_flag_results False) frame_ref frame_cur)
       = Inr False"
  by (simp add: example_detector_def MultiModalDriftDetector_init_def ensemble_detection_def
        psi_flag_results_def ensemble_step_def ensemble_init_def weights_get_simps
        determine_drift_type_def plain_result_def Let_def)

section \<open>C8: every method failed\<close>

lemma failures_votes_sum: "list_all is_failure rs \<Longrightarrow> votes_sum rs = 0"
  by (induction rs) (auto simp: votes_sum_def is_failure_def)

lemma failures_score_sum: "list_all is_failure rs \<Longrightarrow> score_sum rs = Fin 0"
  by (induction rs) (auto simp: score_sum_Cons is_failure_def)

lemma failures_features:
  "list_all is_failure rs \<Longrightarrow> acc_features (ensemble_loop rs acc) = acc_features acc"
  by (induction rs arbitrary: acc) (auto simp: ensemble_step_def Let_def is_failure_def)

lemma failures_any_detected:
  "list_all is_failure rs \<Longrightarrow> any_detected rs ms = Inr False"
proof (induction ms)
  case Nil
  then show ?case by simp
next
  case (Cons m ms)
  show ?case
  proof (cases "map_of rs m")
    case None
    then show ?thesis using Cons by simp
  next
    case (Some r)
    then have "(m, r) \<in> set rs" by (rule map_of_SomeD)
    with Cons.prems have "r_drift_detected r = Some False"
      by (auto simp: list_all_iff is_failure_def)
    with Some Cons show ?thesis by simp
  qed
qed

lemma failures_drift_type:
  assumes "list_all is_failure rs"
  shows "determine_drift_type self rs reference current = Inr ''no_drift''"
proof -
  have a: "any_detected rs [''ks_test'', ''psi'', ''mmd''] = Inr False"
    by (rule failures_any_detected[OF assms])
  have c: "(case map_of rs ''classifier_drift'' of
              None \<Rightarrow> False
            | Some r \<Rightarrow> r_drift_detected r = Some True) = False"
  proof (cases "map_of rs ''classifier_drift''")
    case None
    then show ?thesis by simp
  next
    case (Some r)
    then have "(''classifier_drift'', r) \<in> set rs" by (rule map_of_SomeD)
    with assms have "r_drift_detected r = Some False"
      by (auto simp: list_all_iff is_failure_def)
    with Some show ?thesis by simp
  qed
  show ?thesis
    unfolding determine_drift_type_def a c by simp
qed

text \<open>
  C8, as amended. When every method result is the result of a caught exception
  (\<^verbatim>\<open>drift_detected\<close> false, \<^verbatim>\<open>drift_score\<close> 0, \<^verbatim>\<open>error\<close> set), the aggregator
  returns a DriftResult with score 0, confidence 0, \<^verbatim>\<open>drift_detected\<close> false, the
  type \<^verbatim>\<open>no_drift\<close> and no affected feature. Its metadata holds one entry,
  \<^verbatim>\<open>individual_results\<close>, with the per-method results and their error strings; there
  is no flag of total failure.
\<close>

theorem all_methods_failed_result:
  assumes "list_all is_failure rs"
  shows "\<exists>res. ensemble_detection self rs reference current = Inr res
           \<and> drift_score res = Fin 0 \<and> confidence res = Fin 0 \<and> \<not> drift_detected res
           \<and> drift_type res = ''no_drift'' \<and> features_affected res = []
           \<and> metadata res = [(''individual_results'', rs)]"
  using failures_votes_sum[OF assms] failures_score_sum[OF assms]
    failures_features[OF assms, of ensemble_init]
    failures_drift_type[OF assms, of self reference current]
  by (simp add: ensemble_detection_def Let_def ensemble_loop_drift_votes
        ensemble_loop_total_weight ensemble_loop_weighted_score)
     (simp add: ensemble_init_def py_min_def)

theorem all_methods_failed_result_witness:
  "list_all is_failure all_failed_results
   \<and> (\<exists>res. ensemble_detection example_detector all_failed_results frame_ref frame_cur = Inr res
           \<and> drift_score res = Fin 0 \<and> confidence res = Fin 0 \<and> \<not> drift_detected res
           \<and> drift_type res = ''no_drift'' \<and> features_affected res = []
           \<and> metadata res = [(''individual_results'', all_failed_results)])"
proof -
  have f: "list_all is_failure all_failed_results"
    by (simp add: all_failed_results_def method_names_def is_failure_def error_result_def)
  show ?thesis
    using f all_methods_failed_result[OF f, of example_detector frame_ref frame_cur] by simp
qed

text \<open>
  C8 as stated fails: the metadata of the result for six failed methods has the single
  key \<^verbatim>\<open>individual_results\<close>, and every field of the result but the per-method
  results is the same as for six methods that ran and found no drift.
\<close>

theorem total_failure_flag_counterexample:
  "map_sum id summary
       (ensemble_detection example_detector all_failed_results frame_ref frame_cur)
     = Inr (False, Fin 0, ''no_drift'', [], Fin 0, [''individual_results''])
   \<and> map_sum id summary
       (ensemble_detection example_detector all_quiet_results frame_ref frame_cur)
     = Inr (False, Fin 0, ''no_drift'', [], Fin 0, [''individual_results''])"
  by (simp add: ensemble_detection_def all_failed_results_def all_quiet_results_def
        method_names_def ensemble_step_def ensemble_init_def weights_get_simps
        determine_drift_type_def plain_result_def error_result_def Let_def summary_def
        py_min_def)

section \<open>The example runs\<close>

lemma psi_value_same: "psi_value c c = 0"
  by (induction c) (simp_all add: psi_value_def)

lemma ln_10001: "2 \<le> ln (10001::real)"
proof -
  have "exp (2::real) = exp 1 ^ 2" using exp_double[of "1::real"] by simp
  also have "\<dots> \<le> 3 ^ 2" by (rule power_mono[OF exp_le]) simp
  finally have "exp (2::real) \<le> 10001" by simp
  then show ?thesis by (simp add: ln_ge_iff)
qed

lemma psi_value_x: "psi_value x_ref_counts no_counts = 5 * ln 10001"
  by (simp add: psi_value_def x_ref_counts_def no_counts_def ln_div)

lemma psi_value_x_ge: "10 \<le> psi_value x_ref_counts no_counts"
  using ln_10001 by (simp add: psi_value_x)

lemma psi_value_x_one: "psi_value x_ref_counts x_one_counts = 4 * ln 10001"
  by (simp add: psi_value_def x_ref_counts_def x_one_counts_def ln_div)

lemma psi_value_x_one_ge: "8 \<le> psi_value x_ref_counts x_one_counts"
  using ln_10001 by (simp add: psi_value_x_one)

lemma psi_value_y_one_ge: "4 \<le> psi_value y_counts y_one_counts"
proof -
  have "ln (10001::real) \<le> ln 20001"
    by (rule ln_mono) simp_all
  from order_trans[OF ln_10001 this] have l: "2 \<le> ln (20001::real)" .
  have n: "ln ((10001::real) / 30001) \<le> 0"
    by simp
  have "psi_value y_counts y_one_counts = 2 * ln 20001 - 2 * ln ((10001::real) / 30001)"
    by (simp add: psi_value_def y_counts_def y_one_counts_def ln_div)
  with l n show ?thesis by linarith
qed

lemmas frame_defs = frame_ref_def frame_cur_def frame_no_x_def frame_one_def features_one_def
  x_ref_def x_cur_def y_col_def x_one_def y_one_def

lemmas float_defs = float_gt_def py_min_def

lemma detect_drift_run:
  "detect_drift L self reference current target =
     (case ks_test_drift L reference current of
        Inl e \<Rightarrow> Inl e
      | Inr ks_result \<Rightarrow>
     (case psi_drift L reference current of
        Inl e \<Rightarrow> Inl e
      | Inr psi_result \<Rightarrow>
     (case mmd_drift L reference current of
        Inl e \<Rightarrow> Inl e
      | Inr mmd_result \<Rightarrow>
     (case isolation_forest_drift L reference current of
        Inl e \<Rightarrow> Inl e
      | Inr iso_result \<Rightarrow>
          ensemble_detection self
            (run_results L reference current target ks_result psi_result mmd_result iso_result)
            reference current))))"
  by (simp add: detect_drift_def run_results_def Let_def split: sum.splits)

lemma detect_drift_InrD:
  assumes "detect_drift L self reference current target = Inr res"
  shows "\<exists>ks_result psi_result mmd_result iso_result.
           ks_test_drift L reference current = Inr ks_result
         \<and> psi_drift L reference current = Inr psi_result
         \<and> mmd_drift L reference current = Inr mmd_result
         \<and> isolation_forest_drift L reference current = Inr iso_result
         \<and> ensemble_detection self
              (run_results L reference current target ks_result psi_result mmd_result iso_result)
              reference current = Inr res"
  using assms unfolding detect_drift_run by (auto split: sum.splits)

lemma shifted_run_results:
  "ks_test_drift example_lib frame_ref frame_cur = Inr (snd (shifted_results ! 0))"
  "psi_drift example_lib frame_ref frame_cur = Inr (snd (shifted_results ! 1))"
  "mmd_drift example_lib frame_ref frame_cur = Inr (snd (shifted_results ! 2))"
  "isolation_forest_drift example_lib frame_ref frame_cur = Inr (snd (shifted_results ! 3))"
  "covariance_drift example_lib frame_ref frame_cur = snd (shifted_results ! 4)"
  "classifier_drift example_lib frame_ref frame_cur ''y'' = snd (shifted_results ! 5)"
  using psi_value_x_ge
  by (simp_all add: ks_test_drift_def psi_drift_def mmd_drift_def mmd_body_def
        isolation_forest_drift_def covariance_drift_def classifier_drift_def
        classifier_body_def df_drop_def df_columns_def frame_defs df_getitem_def
        is_numeric_def dropna_def example_lib_def psi_value_same shifted_results_def
        plain_result_def float_defs)

lemma shifted_run:
  "detect_drift example_lib example_detector frame_ref frame_cur (Some ''y'')
     = Inr shifted_outcome"
proof -
  have r: "run_results example_lib frame_ref frame_cur (Some ''y'')
      (snd (shifted_results ! 0)) (snd (shifted_results ! 1)) (snd (shifted_results ! 2))
      (snd (shifted_results ! 3)) = shifted_results"
    by (simp add: run_results_def truthy_def shifted_run_results(5,6))
       (simp add: shifted_results_def)
  have e: "ensemble_detection example_detector shifted_results frame_ref frame_cur
      = Inr shifted_outcome"
    using psi_value_x_ge
    by (simp add: ensemble_detection_def ensemble_step_def ensemble_init_def weights_get_simps
          determine_drift_type_def Let_def high_psi_features_def shifted_outcome_def
          shifted_results_def plain_result_def float_defs)
  show ?thesis
    unfolding detect_drift_run shifted_run_results by (simp only: sum.case r e)
qed

lemma quiet_run_results:
  "ks_test_drift example_lib frame_ref frame_ref = Inr (snd (quiet_results ! 0))"
  "psi_drift example_lib frame_ref frame_ref = Inr (snd (quiet_results ! 1))"
  "mmd_drift example_lib frame_ref frame_ref = Inr (snd (quiet_results ! 2))"
  "isolation_forest_drift example_lib frame_ref frame_ref = Inr (snd (quiet_results ! 3))"
  "covariance_drift example_lib frame_ref frame_ref = snd (quiet_results ! 4)"
  "classifier_drift example_lib frame_ref frame_ref ''y'' = snd (quiet_results ! 5)"
  by (simp_all add: ks_test_drift_def psi_drift_def mmd_drift_def mmd_body_def
        isolation_forest_drift_def covariance_drift_def classifier_drift_def
        classifier_body_def df_drop_def df_columns_def frame_defs df_getitem_def
        is_numeric_def dropna_def example_lib_def psi_value_same quiet_results_def
        plain_result_def float_defs)

lemma quiet_run:
  "detect_drift example_lib example_detector frame_ref frame_ref (Some ''y'')
     = Inr quiet_outcome"
proof -
  have r: "run_results example_lib frame_ref frame_ref (Some ''y'')
      (snd (quiet_results ! 0)) (snd (quiet_results ! 1)) (snd (quiet_results ! 2))
      (snd (quiet_results ! 3)) = quiet_results"
    by (simp add: run_results_def truthy_def quiet_run_results(5,6))
       (simp add: quiet_results_def)
  have e: "ensemble_detection example_detector quiet_results frame_ref frame_ref
      = Inr quiet_outcome"
    by (simp add: ensemble_detection_def ensemble_step_def ensemble_init_def weights_get_simps
          determine_drift_type_def Let_def high_psi_features_def quiet_outcome_def
          quiet_results_def plain_result_def float_defs)
  show ?thesis
    unfolding detect_drift_run quiet_run_results by (simp only: sum.case r e)
qed

lemma one_row_run_results:
  "ks_test_drift example_lib frame_ref frame_one = Inr (snd (one_row_results ! 0))"
  "psi_drift example_lib frame_ref frame_one = Inr (snd (one_row_results ! 1))"
  "mmd_drift example_lib frame_ref frame_one = Inr (snd (one_row_results ! 2))"
  "isolation_forest_drift example_lib frame_ref frame_one = Inr (snd (one_row_results ! 3))"
  "covariance_drift example_lib frame_ref frame_one = snd (one_row_results ! 4)"
  "classifier_drift example_lib frame_ref frame_one ''y'' = snd (one_row_results ! 5)"
  using psi_value_x_one_ge psi_value_y_one_ge
  by (simp_all add: ks_test_drift_def psi_drift_def mmd_drift_def mmd_body_def
        isolation_forest_drift_def covariance_drift_def classifier_drift_def
        classifier_body_def df_drop_def df_columns_def frame_defs df_getitem_def
        is_numeric_def dropna_def example_lib_def one_row_results_def
        plain_result_def float_defs df_len_def)

lemma one_row_run:
  "detect_drift example_lib example_detector frame_ref frame_one (Some ''y'')
     = Inr one_row_outcome"
proof -
  have r: "run_results example_lib frame_ref frame_one (Some ''y'')
      (snd (one_row_results ! 0)) (snd (one_row_results ! 1)) (snd (one_row_results ! 2))
      (snd (one_row_results ! 3)) = one_row_results"
    by (simp add: run_results_def truthy_def one_row_run_results(5,6))
       (simp add: one_row_results_def)
  have e: "ensemble_detection example_detector one_row_results frame_ref frame_one
      = Inr one_row_outcome"
    using psi_value_x_one_ge psi_value_y_one_ge
    by (simp add: ensemble_detection_def ensemble_step_def ensemble_init_def weights_get_simps
          determine_drift_type_def Let_def high_psi_features_def one_row_outcome_def
          one_row_results_def plain_result_def float_defs)
  show ?thesis
    unfolding detect_drift_run one_row_run_results by (simp only: sum.case r e)
qed

section \<open>C3: the range of the score and of the confidence\<close>

lemma weight_sum_nonneg: "0 \<le> weight_sum rs"
  unfolding weight_sum_def
  by (rule sum_list_nonneg) (auto intro: less_imp_le[OF weights_get_pos])

lemma has_nan_weight_sum: "has_nan rs \<Longrightarrow> 0 < weight_sum rs"
proof (induction rs)
  case Nil
  then show ?case by (simp add: has_nan_def)
next
  case (Cons item rs)
  have p: "0 < weights_get (fst item)" by (rule weights_get_pos)
  have n: "0 \<le> weight_sum rs" by (rule weight_sum_nonneg)
  show ?case
  proof (cases "r_drift_score (snd item) = Some NaN")
    case True
    with p n show ?thesis by (simp add: weight_sum_def)
  next
    case False
    with Cons.prems have "has_nan rs" by (simp add: has_nan_def)
    from Cons.IH[OF this] p show ?thesis
      by (simp add: weight_sum_def)
  qed
qed

lemma finite_score_sum_nonneg: "scores_at_least 0 rs \<Longrightarrow> 0 \<le> finite_score_sum rs"
  unfolding finite_score_sum_def scores_at_least_def
  by (rule sum_list_nonneg)
     (auto simp: list_all_iff intro!: mult_nonneg_nonneg less_imp_le[OF weights_get_pos]
       split: option.splits pyfloat.splits)

lemma finite_score_sum_le_weight_sum:
  "scores_at_most 1 rs \<Longrightarrow> finite_score_sum rs \<le> weight_sum rs"
proof (induction rs)
  case Nil
  then show ?case by (simp add: finite_score_sum_def weight_sum_def)
next
  case (Cons item rs)
  then have ih: "finite_score_sum rs \<le> weight_sum rs"
    by (simp add: scores_at_most_def)
  have p: "0 \<le> weights_get (fst item)" by (rule less_imp_le[OF weights_get_pos])
  show ?case
  proof (cases "r_drift_score (snd item)")
    case None
    then show ?thesis using ih by (simp add: finite_score_sum_def weight_sum_def)
  next
    case (Some v)
    show ?thesis
    proof (cases v)
      case NaN
      with Some ih p show ?thesis by (simp add: finite_score_sum_def weight_sum_def)
    next
      case (Fin s)
      with Some Cons.prems have "s \<le> 1" by (simp add: scores_at_most_def)
      then have "s * weights_get (fst item) \<le> 1 * weights_get (fst item)"
        by (rule mult_right_mono) (rule p)
      with ih Some Fin show ?thesis by (simp add: finite_score_sum_def weight_sum_def)
    qed
  qed
qed

text \<open>
  C3, as amended. Every DriftResult returned by \<^verbatim>\<open>detect_drift\<close> has its
  confidence computed as \<^verbatim>\<open>min(drift_score, 1.0)\<close>. When no per-method score kept
  in the metadata is NaN, the score is a number, the weighted mean of the per-method
  scores, and \<^verbatim>\<open>confidence == min(drift_score, 1.0)\<close> holds, so the confidence is
  at most 1; the score is at least 0, and the confidence lies in [0, 1], when no
  per-method score is negative; the score is at most 1 when no per-method score exceeds
  1. The PSI score is a sum over raw bin counts and has no upper bound, so the score
  itself is not confined to [0, 1]. When a per-method score is NaN (the classifier
  returns the mean AUC NaN, with no error, when a fold cannot be scored), the score and
  the confidence are both NaN, and \<^verbatim>\<open>confidence == min(drift_score, 1.0)\<close> is
  false.
\<close>

theorem drift_result_ranges:
  assumes "detect_drift L self reference current target = Inr res"
  shows "confidence res = py_min (drift_score res) (Fin 1)
       \<and> (\<exists>rs. metadata res = [(''individual_results'', rs)]
              \<and> (has_nan rs \<longrightarrow>
                    drift_score res = NaN \<and> confidence res = NaN
                  \<and> \<not> float_eq (confidence res) (py_min (drift_score res) (Fin 1)))
              \<and> (\<not> has_nan rs \<longrightarrow>
                    (\<exists>s. drift_score res = Fin s \<and> confidence res = Fin (min s 1)
                        \<and> float_eq (confidence res) (py_min (drift_score res) (Fin 1))
                        \<and> (scores_at_least 0 rs \<longrightarrow> 0 \<le> s)
                        \<and> (scores_at_most 1 rs \<longrightarrow> s \<le> 1))))"
proof -
  from detect_drift_InrD[OF assms] obtain rs
    where e: "ensemble_detection self rs reference current = Inr res" by blast
  note f = ensemble_detection_fields[OF e]
  have nan: "drift_score res = NaN \<and> confidence res = NaN
      \<and> \<not> float_eq (confidence res) (py_min (drift_score res) (Fin 1))" if "has_nan rs"
  proof -
    from that have "drift_score res = NaN"
      using has_nan_weight_sum[OF that] by (simp add: f(2) score_sum_def)
    then show ?thesis by (simp add: f(3) py_min_def)
  qed
  have num: "\<exists>s. drift_score res = Fin s \<and> confidence res = Fin (min s 1)
      \<and> float_eq (confidence res) (py_min (drift_score res) (Fin 1))
      \<and> (scores_at_least 0 rs \<longrightarrow> 0 \<le> s)
      \<and> (scores_at_most 1 rs \<longrightarrow> s \<le> 1)" if "\<not> has_nan rs"
  proof (cases "weight_sum rs > 0")
    case True
    let ?s = "finite_score_sum rs / weight_sum rs"
    from that True have d: "drift_score res = Fin ?s"
      by (simp add: f(2) score_sum_def)
    then have c: "confidence res = Fin (min ?s 1)"
      by (simp add: f(3) py_min_def min_def)
    have lo: "0 \<le> ?s" if "scores_at_least 0 rs"
      using finite_score_sum_nonneg[OF that] True by simp
    have hi: "?s \<le> 1" if "scores_at_most 1 rs"
      using finite_score_sum_le_weight_sum[OF that] True by simp
    from d c lo hi show ?thesis
      by (intro exI[of _ ?s]) (simp add: py_min_def min_def)
  next
    case False
    then have d: "drift_score res = Fin 0" by (simp add: f(2))
    then have c: "confidence res = Fin (min 0 1)"
      by (simp add: f(3) py_min_def)
    from d c show ?thesis
      by (intro exI[of _ 0]) (simp add: py_min_def)
  qed
  from f(3,4) nan num show ?thesis by blast
qed

theorem drift_result_ranges_witness:
  "detect_drift example_lib example_detector frame_ref frame_ref (Some ''y'') = Inr quiet_outcome
   \<and> \<not> has_nan quiet_results
   \<and> scores_at_least 0 quiet_results \<and> scores_at_most 1 quiet_results
   \<and> drift_score quiet_outcome = Fin 0.08 \<and> confidence quiet_outcome = Fin (min 0.08 1)
   \<and> float_eq (confidence quiet_outcome) (py_min (drift_score quiet_outcome) (Fin 1))
   \<and> detect_drift example_lib example_detector frame_ref frame_one (Some ''y'')
       = Inr one_row_outcome
   \<and> has_nan one_row_results
   \<and> drift_score one_row_outcome = NaN \<and> confidence one_row_outcome = NaN
   \<and> \<not> float_eq (confidence one_row_outcome) (py_min (drift_score one_row_outcome) (Fin 1))"
proof -
  have n: "\<not> has_nan quiet_results"
    by (simp add: has_nan_def quiet_results_def plain_result_def)
  have lo: "scores_at_least 0 quiet_results"
    by (simp add: scores_at_least_def quiet_results_def plain_result_def)
  have hi: "scores_at_most 1 quiet_results"
    by (simp add: scores_at_most_def quiet_results_def plain_result_def)
  have h: "has_nan one_row_results"
    by (simp add: has_nan_def one_row_results_def plain_result_def)
  have mq: "metadata quiet_outcome = [(''individual_results'', quiet_results)]"
    by (simp add: quiet_outcome_def)
  have mo: "metadata one_row_outcome = [(''individual_results'', one_row_results)]"
    by (simp add: one_row_outcome_def)
  have dq: "drift_score quiet_outcome = Fin 0.08"
    by (simp add: quiet_outcome_def)
  from drift_result_ranges[OF quiet_run] mq n dq
  have q: "confidence quiet_outcome = Fin (min 0.08 1)
      \<and> float_eq (confidence quiet_outcome) (py_min (drift_score quiet_outcome) (Fin 1))"
    by (auto simp: py_min_def)
  from drift_result_ranges[OF one_row_run] mo h
  have o: "drift_score one_row_outcome = NaN \<and> confidence one_row_outcome = NaN
      \<and> \<not> float_eq (confidence one_row_outcome) (py_min (drift_score one_row_outcome) (Fin 1))"
    by auto
  from quiet_run one_row_run n lo hi h dq q o show ?thesis by blast
qed

text \<open>
  C3 as stated fails. On the shifted example the PSI of \<open>x\<close> is 5 ln 10001 and the
  run returns a score above 3. On the one-row example the classifier returns NaN, and
  the run returns the score NaN and the confidence NaN, for which
  \<^verbatim>\<open>confidence == min(drift_score, 1.0)\<close> is false.
\<close>

theorem drift_score_above_one_counterexample:
  "detect_drift example_lib example_detector frame_ref frame_cur (Some ''y'')
     = Inr shifted_outcome
   \<and> float_lt (Fin 3) (drift_score shifted_outcome)
   \<and> detect_drift example_lib example_detector frame_ref frame_one (Some ''y'')
     = Inr one_row_outcome
   \<and> drift_score one_row_outcome = NaN
   \<and> confidence one_row_outcome = NaN
   \<and> \<not> float_eq (confidence one_row_outcome) (py_min (drift_score one_row_outcome) (Fin 1))"
  using psi_value_x_ge
  by (simp add: shifted_run one_row_run shifted_outcome_def one_row_outcome_def py_min_def)

section \<open>C5: the drift-type label\<close>




lemma detector_flags:
  "ks_test_drift L reference current = Inr r \<Longrightarrow> \<not> Option.is_none (r_drift_detected r)"
  "psi_drift L reference current = Inr r \<Longrightarrow> \<not> Option.is_none (r_drift_detected r)"
  "mmd_drift L reference current = Inr r \<Longrightarrow> \<not> Option.is_none (r_drift_detected r)"
  by (auto simp: ks_test_drift_def psi_drift_def mmd_drift_def split: sum.splits if_splits)

lemma any_detected_fired:
  assumes "list_all (\<lambda>m. case map_of rs m of None \<Rightarrow> True
                          | Some r \<Rightarrow> \<not> Option.is_none (r_drift_detected r)) ms"
  shows "any_detected rs ms = Inr (list_ex (fired rs) ms)"
  using assms
  by (induction ms) (auto simp: fired_def Option.is_none_def split: option.splits bool.splits)

lemma determine_drift_type_label:
  assumes "any_detected rs [''ks_test'', ''psi'', ''mmd''] = Inr b"
  shows "determine_drift_type self rs reference current
     = Inr (drift_label b (fired rs ''classifier_drift''))"
  unfolding determine_drift_type_def assms
  by (simp add: drift_label_def fired_def Let_def split: option.splits)

lemma run_results_keys:
  "map fst (run_results L reference current target k p m i) =
     [''ks_test'', ''psi'', ''mmd'', ''isolation_forest'', ''covariance_drift'']
     @ (if truthy target then [''classifier_drift''] else [])"
  by (simp add: run_results_def)

lemma run_results_lookup:
  "map_of (run_results L reference current target k p m i) ''ks_test'' = Some k"
  "map_of (run_results L reference current target k p m i) ''psi'' = Some p"
  "map_of (run_results L reference current target k p m i) ''mmd'' = Some m"
  by (simp_all add: run_results_def)

lemma detect_drift_label:
  assumes "detect_drift L self reference current target = Inr res"
  shows "\<exists>rs. metadata res = [(''individual_results'', rs)]
           \<and> (''classifier_drift'' \<in> set (map fst rs)) = truthy target
           \<and> drift_type res =
               drift_label (fired rs ''ks_test'' \<or> fired rs ''psi'' \<or> fired rs ''mmd'')
                 (truthy target \<and> fired rs ''classifier_drift'')"
proof -
  from detect_drift_InrD[OF assms] obtain k p m i' where
    k: "ks_test_drift L reference current = Inr k" and
    p: "psi_drift L reference current = Inr p" and
    m: "mmd_drift L reference current = Inr m" and
    e: "ensemble_detection self (run_results L reference current target k p m i')
          reference current = Inr res"
    by blast
  let ?rs = "run_results L reference current target k p m i'"
  note fl = detector_flags(1)[OF k] detector_flags(2)[OF p] detector_flags(3)[OF m]
  have a: "any_detected ?rs [''ks_test'', ''psi'', ''mmd'']
      = Inr (list_ex (fired ?rs) [''ks_test'', ''psi'', ''mmd''])"
    by (rule any_detected_fired) (simp add: run_results_lookup fl)
  have keys: "(''classifier_drift'' \<in> set (map fst ?rs)) = truthy target"
    by (simp add: run_results_keys)
  have c: "fired ?rs ''classifier_drift'' = (truthy target \<and> fired ?rs ''classifier_drift'')"
    by (auto simp: fired_def run_results_def)
  have "drift_type res =
      drift_label (fired ?rs ''ks_test'' \<or> fired ?rs ''psi'' \<or> fired ?rs ''mmd'')
        (truthy target \<and> fired ?rs ''classifier_drift'')"
    using ensemble_detection_fields(5)[OF e] determine_drift_type_label[OF a, of self
        reference current] c
    by simp
  then show ?thesis
    using ensemble_detection_fields(4)[OF e] keys by blast
qed




section \<open>C10: the service never supplies a target column\<close>

lemma shifted_run_no_target:
  "detect_drift example_lib self frame_ref frame_cur None = Inr shifted_outcome_no_target"
proof -
  have r: "run_results example_lib frame_ref frame_cur None
      (snd (shifted_results ! 0)) (snd (shifted_results ! 1)) (snd (shifted_results ! 2))
      (snd (shifted_results ! 3)) = butlast shifted_results"
    by (simp add: run_results_def truthy_def shifted_run_results(5))
       (simp add: shifted_results_def)
  have e: "ensemble_detection self (butlast shifted_results) frame_ref frame_cur
      = Inr shifted_outcome_no_target"
    using psi_value_x_ge
    by (simp add: ensemble_detection_def ensemble_step_def ensemble_init_def weights_get_simps
          determine_drift_type_def Let_def high_psi_features_def shifted_outcome_no_target_def
          shifted_results_def plain_result_def float_defs)
  show ?thesis
    unfolding detect_drift_run shifted_run_results by (simp only: sum.case r e)
qed

lemma service_detect_drift_InrD:
  fixes svc :: "'c DriftDetectionService"
  assumes "service_detect_drift L E svc request = (Inr response, svc')"
  shows "\<exists>(detector :: 'c MultiModalDriftDetector) reference_df current_df res.
           detect_drift L detector reference_df current_df None = Inr res
         \<and> resp_drift_type response = drift_type res"
  using assms
  by (auto simp: service_detect_drift_def Let_def
      split: sum.splits prod.splits option.splits) blast+

text \<open>
  C10. Every response of \<^verbatim>\<open>DriftDetectionService.detect_drift\<close> comes from a call
  of the detector without a target column: the per-method results of that run do not
  hold the classifier, and the drift type of the response is neither
  \<^verbatim>\<open>concept_drift\<close> nor \<^verbatim>\<open>covariate_and_concept_drift\<close>; it is
  \<^verbatim>\<open>covariate_drift\<close> or \<^verbatim>\<open>no_drift\<close>.
\<close>

theorem service_runs_without_target:
  fixes svc :: "'c DriftDetectionService"
  assumes "service_detect_drift L E svc request = (Inr response, svc')"
  shows "(\<exists>(detector :: 'c MultiModalDriftDetector) reference_df current_df res rs.
            detect_drift L detector reference_df current_df None = Inr res
          \<and> metadata res = [(''individual_results'', rs)]
          \<and> ''classifier_drift'' \<notin> set (map fst rs)
          \<and> resp_drift_type response = drift_type res)
       \<and> resp_drift_type response \<noteq> ''concept_drift''
       \<and> resp_drift_type response \<noteq> ''covariate_and_concept_drift''
       \<and> (resp_drift_type response = ''covariate_drift''
            \<or> resp_drift_type response = ''no_drift'')"
proof -
  from service_detect_drift_InrD[OF assms]
  obtain detector :: "'c MultiModalDriftDetector" and reference_df current_df res where
    d: "detect_drift L detector reference_df current_df None = Inr res" and
    t: "resp_drift_type response = drift_type res"
    by blast
  from detect_drift_label[OF d] obtain rs where
    m: "metadata res = [(''individual_results'', rs)]" and
    k: "(''classifier_drift'' \<in> set (map fst rs)) = truthy None" and
    l: "drift_type res =
          drift_label (fired rs ''ks_test'' \<or> fired rs ''psi'' \<or> fired rs ''mmd'')
            (truthy None \<and> fired rs ''classifier_drift'')"
    by blast
  from k have k': "''classifier_drift'' \<notin> set (map fst rs)" by (simp add: truthy_def)
  from l have "drift_type res = ''covariate_drift'' \<or> drift_type res = ''no_drift''"
    by (simp add: truthy_def drift_label_def)
  then have "resp_drift_type response \<noteq> ''concept_drift''
       \<and> resp_drift_type response \<noteq> ''covariate_and_concept_drift''
       \<and> (resp_drift_type response = ''covariate_drift''
            \<or> resp_drift_type response = ''no_drift'')"
    unfolding t by auto
  with d m k' t show ?thesis by blast
qed

lemma warm_service_run:
  "service_detect_drift example_lib example_env warm_service example_request =
     (Inr \<lparr>resp_drift_detected = drift_detected shifted_outcome_no_target,
           resp_drift_score = drift_score shifted_outcome_no_target,
           resp_drift_type = drift_type shifted_outcome_no_target,
           resp_features_affected = features_affected shifted_outcome_no_target,
           resp_confidence = confidence shifted_outcome_no_target,
           resp_recommendation = generate_recommendation shifted_outcome_no_target\<rparr>,
      warm_service\<lparr>detectors := [''churn'' \<mapsto> example_detector]\<rparr>)"
  by (simp add: service_detect_drift_def load_reference_data_def example_env_def
        warm_service_def example_request_def shifted_run_no_target example_detector_def
        Let_def)

theorem service_runs_without_target_witness:
  "fst (service_detect_drift example_lib example_env warm_service example_request)
     = Inr \<lparr>resp_drift_detected = True,
            resp_drift_score = drift_score shifted_outcome_no_target,
            resp_drift_type = ''covariate_drift'',
            resp_features_affected = [''x''],
            resp_confidence = Fin 1,
            resp_recommendation = generate_recommendation shifted_outcome_no_target\<rparr>
   \<and> ''covariate_drift'' \<noteq> ''concept_drift''
   \<and> ''covariate_drift'' \<noteq> ''covariate_and_concept_drift''"
  using service_runs_without_target[OF warm_service_run]
  by (simp add: warm_service_run shifted_outcome_no_target_def)

section \<open>C6: columns that the two frames do not share\<close>

lemma ks_loop_missing:
  assumes "list_ex (\<lambda>c. numeric_in reference c \<and> map_of current c = None) cols"
  shows "\<exists>e. ks_loop L reference current cols acc = Inl e"
  using assms
proof (induction cols arbitrary: acc)
  case Nil
  then show ?case by simp
next
  case (Cons col cols)
  obtain ds ps where acc: "acc = (ds, ps)" by (cases acc)
  show ?case
  proof (cases "numeric_in reference col \<and> map_of current col = None")
    case True
    then show ?thesis
      unfolding acc by (auto simp: numeric_in_def df_getitem_def split: option.splits)
  next
    case False
    with Cons.prems have "list_ex (\<lambda>c. numeric_in reference c \<and> map_of current c = None) cols"
      by auto
    from Cons.IH[OF this] show ?thesis
      unfolding acc by (auto simp: df_getitem_def split: option.splits sum.splits)
  qed
qed

lemma psi_loop_missing:
  assumes "list_ex (\<lambda>c. numeric_in reference c \<and> map_of current c = None) cols"
  shows "\<exists>e. psi_loop L reference current cols acc = Inl e"
  using assms
proof (induction cols arbitrary: acc)
  case Nil
  then show ?case by simp
next
  case (Cons col cols)
  show ?case
  proof (cases "numeric_in reference col \<and> map_of current col = None")
    case True
    then show ?thesis
      by (auto simp: numeric_in_def df_getitem_def split: option.splits sum.splits)
  next
    case False
    with Cons.prems have "list_ex (\<lambda>c. numeric_in reference c \<and> map_of current c = None) cols"
      by auto
    from Cons.IH[OF this] show ?thesis
      by (auto simp: df_getitem_def split: option.splits sum.splits)
  qed
qed

lemma ks_loop_first_missing:
  assumes "find (\<lambda>c. map_of current c = None) (filter (numeric_in reference) cols) = Some c"
    and "list_all (ks_ok L reference current) (filter (numeric_in reference) cols)"
    and "set cols \<subseteq> set (df_columns reference)"
  shows "ks_loop L reference current cols acc = Inl (Exn KeyError c)"
  using assms
proof (induction cols arbitrary: acc)
  case Nil
  then show ?case by simp
next
  case (Cons col cols)
  obtain ds ps where acc: "acc = (ds, ps)" by (cases acc)
  from Cons.prems(3) have "col \<in> fst ` set reference"
    by (simp add: df_columns_def)
  then have "map_of reference col \<noteq> None"
    by (simp add: map_of_eq_None_iff)
  then obtain rc where rc: "map_of reference col = Some rc"
    by auto
  show ?case
  proof (cases "is_numeric rc")
    case False
    with rc have "\<not> numeric_in reference col" by (simp add: numeric_in_def)
    with Cons.prems have
      "find (\<lambda>c. map_of current c = None) (filter (numeric_in reference) cols) = Some c"
      "list_all (ks_ok L reference current) (filter (numeric_in reference) cols)"
      "set cols \<subseteq> set (df_columns reference)"
      by auto
    from Cons.IH[OF this] show ?thesis
      unfolding acc using rc False by (simp add: df_getitem_def)
  next
    case True
    with rc have n: "numeric_in reference col" by (simp add: numeric_in_def)
    show ?thesis
    proof (cases "map_of current col")
      case None
      with n Cons.prems(1) have "c = col" by simp
      with None rc True show ?thesis unfolding acc by (simp add: df_getitem_def)
    next
      case (Some cc)
      with n Cons.prems have
        f: "find (\<lambda>c. map_of current c = None) (filter (numeric_in reference) cols) = Some c"
        and a: "list_all (ks_ok L reference current) (filter (numeric_in reference) cols)"
        and s: "set cols \<subseteq> set (df_columns reference)"
        and ok: "ks_ok L reference current col"
        by auto
      from ok rc Some obtain v where v: "ks_2samp L (dropna rc) (dropna cc) = Inr v"
        by (cases "ks_2samp L (dropna rc) (dropna cc)") (auto simp: ks_ok_def)
      obtain stat p where sp: "v = (stat, p)" by (cases v)
      show ?thesis
        unfolding acc using rc True Some v sp Cons.IH[OF f a s]
        by (simp add: df_getitem_def)
    qed
  qed
qed

lemma psi_loop_first_missing:
  assumes "find (\<lambda>c. map_of current c = None) (filter (numeric_in reference) cols) = Some c"
    and "list_all (psi_ok L reference current) (filter (numeric_in reference) cols)"
    and "set cols \<subseteq> set (df_columns reference)"
  shows "psi_loop L reference current cols acc = Inl (Exn KeyError c)"
  using assms
proof (induction cols arbitrary: acc)
  case Nil
  then show ?case by simp
next
  case (Cons col cols)
  from Cons.prems(3) have "col \<in> fst ` set reference"
    by (simp add: df_columns_def)
  then have "map_of reference col \<noteq> None"
    by (simp add: map_of_eq_None_iff)
  then obtain rc where rc: "map_of reference col = Some rc"
    by auto
  show ?case
  proof (cases "is_numeric rc")
    case False
    with rc have "\<not> numeric_in reference col" by (simp add: numeric_in_def)
    with Cons.prems have
      "find (\<lambda>c. map_of current c = None) (filter (numeric_in reference) cols) = Some c"
      "list_all (psi_ok L reference current) (filter (numeric_in reference) cols)"
      "set cols \<subseteq> set (df_columns reference)"
      by auto
    from Cons.IH[OF this] show ?thesis
      using rc False by (simp add: df_getitem_def)
  next
    case True
    with rc have n: "numeric_in reference col" by (simp add: numeric_in_def)
    with Cons.prems have ok: "psi_ok L reference current col" by simp
    from ok rc obtain bins where b: "histogram_bin_edges L (dropna rc) = Inr bins"
      by (cases "histogram_bin_edges L (dropna rc)") (auto simp: psi_ok_def)
    from ok rc b obtain rf where rf: "histogram L (dropna rc) bins = Inr rf"
      by (cases "histogram L (dropna rc) bins") (auto simp: psi_ok_def)
    show ?thesis
    proof (cases "map_of current col")
      case None
      with n Cons.prems(1) have "c = col" by simp
      with None rc True b rf show ?thesis by (simp add: df_getitem_def)
    next
      case (Some cc)
      with n Cons.prems have
        f: "find (\<lambda>c. map_of current c = None) (filter (numeric_in reference) cols) = Some c"
        and a: "list_all (psi_ok L reference current) (filter (numeric_in reference) cols)"
        and s: "set cols \<subseteq> set (df_columns reference)"
        by auto
      from ok rc b Some obtain cf where cf: "histogram L (dropna cc) bins = Inr cf"
        by (cases "histogram L (dropna cc) bins") (auto simp: psi_ok_def)
      show ?thesis
        using rc True Some b rf cf Cons.IH[OF f a s]
        by (simp add: df_getitem_def)
    qed
  qed
qed

lemma ks_loop_agree:
  assumes "list_all (\<lambda>c. map_of current c = map_of current' c)
             (filter (numeric_in reference) cols)"
  shows "ks_loop L reference current cols acc = ks_loop L reference current' cols acc"
  using assms
proof (induction cols arbitrary: acc)
  case Nil
  then show ?case by simp
next
  case (Cons col cols)
  obtain ds ps where acc: "acc = (ds, ps)" by (cases acc)
  from Cons.prems have
    r: "list_all (\<lambda>c. map_of current c = map_of current' c)
          (filter (numeric_in reference) cols)"
    and h: "numeric_in reference col \<Longrightarrow> map_of current col = map_of current' col"
    by (auto split: if_splits)
  show ?case
    unfolding acc using Cons.IH[OF r] h
    by (auto simp: df_getitem_def numeric_in_def split: option.splits sum.splits)
qed

lemma psi_loop_agree:
  assumes "list_all (\<lambda>c. map_of current c = map_of current' c)
             (filter (numeric_in reference) cols)"
  shows "psi_loop L reference current cols acc = psi_loop L reference current' cols acc"
  using assms
proof (induction cols arbitrary: acc)
  case Nil
  then show ?case by simp
next
  case (Cons col cols)
  from Cons.prems have
    r: "list_all (\<lambda>c. map_of current c = map_of current' c)
          (filter (numeric_in reference) cols)"
    and h: "numeric_in reference col \<Longrightarrow> map_of current col = map_of current' col"
    by (auto split: if_splits)
  show ?case
    using Cons.IH[OF r] h
    by (auto simp: df_getitem_def numeric_in_def split: option.splits sum.splits)
qed

lemma missing_column_iff:
  "(\<lambda>c. c \<notin> set (df_columns current)) = (\<lambda>c. map_of current c = None)"
  by (simp add: fun_eq_iff df_columns_def map_of_eq_None_iff)

lemma missing_numeric_column:
  assumes "list_ex (\<lambda>c. c \<notin> set (df_columns current)) (numeric_columns reference)"
  shows "list_ex (\<lambda>c. numeric_in reference c \<and> map_of current c = None)
           (df_columns reference)"
  using assms
  by (auto simp: list_ex_iff numeric_columns_def df_columns_def map_of_eq_None_iff)

lemma detect_drift_ks_raises:
  "ks_test_drift L reference current = Inl e \<Longrightarrow>
   detect_drift L self reference current target = Inl e"
  by (simp add: detect_drift_def)

text \<open>
  C6, as amended. KS and PSI read \<^verbatim>\<open>current[column]\<close> for every numeric
  (float64 or int64) column of the reference, with no test that the column exists. A
  numeric reference column that the current frame lacks is not skipped: both detectors
  and \<^verbatim>\<open>detect_drift\<close> raise, and when the library routines raise nothing on the
  shared columns the exception is the KeyError of the first such column. What the
  detectors do ignore are the columns of the current frame that are no numeric column
  of the reference: two current frames that agree on the numeric columns of the
  reference give the same KS and PSI result.
\<close>

theorem unmatched_reference_column_raises:
  "(list_ex (\<lambda>c. c \<notin> set (df_columns current)) (numeric_columns reference) \<longrightarrow>
       (\<exists>e. ks_test_drift L reference current = Inl e)
     \<and> (\<exists>e. psi_drift L reference current = Inl e)
     \<and> (\<exists>e. detect_drift L self reference current target = Inl e))
   \<and> (find (\<lambda>c. c \<notin> set (df_columns current)) (numeric_columns reference) = Some c
        \<and> ks_succeeds L reference current \<longrightarrow>
       ks_test_drift L reference current = Inl (Exn KeyError c)
     \<and> detect_drift L self reference current target = Inl (Exn KeyError c))
   \<and> (find (\<lambda>c. c \<notin> set (df_columns current)) (numeric_columns reference) = Some c
        \<and> psi_succeeds L reference current \<longrightarrow>
       psi_drift L reference current = Inl (Exn KeyError c))
   \<and> (list_all (\<lambda>c. map_of current c = map_of current' c) (numeric_columns reference) \<longrightarrow>
       ks_test_drift L reference current = ks_test_drift L reference current'
     \<and> psi_drift L reference current = psi_drift L reference current')"
proof (intro conjI impI)
  assume a: "list_ex (\<lambda>c. c \<notin> set (df_columns current)) (numeric_columns reference)"
  from ks_loop_missing[OF missing_numeric_column[OF a]]
  show k: "\<exists>e. ks_test_drift L reference current = Inl e"
    by (metis (no_types, lifting) ks_test_drift_def sum.case(1))
  from psi_loop_missing[OF missing_numeric_column[OF a]]
  show "\<exists>e. psi_drift L reference current = Inl e"
    by (metis (no_types, lifting) psi_drift_def sum.case(1))
  from k show "\<exists>e. detect_drift L self reference current target = Inl e"
    by (auto dest: detect_drift_ks_raises)
next
  assume a: "find (\<lambda>c. c \<notin> set (df_columns current)) (numeric_columns reference) = Some c
      \<and> ks_succeeds L reference current"
  then have "ks_loop L reference current (df_columns reference) ([], []) = Inl (Exn KeyError c)"
    by (intro ks_loop_first_missing)
       (simp_all add: missing_column_iff numeric_columns_def ks_succeeds_def)
  then show k: "ks_test_drift L reference current = Inl (Exn KeyError c)"
    by (simp add: ks_test_drift_def)
  then show "detect_drift L self reference current target = Inl (Exn KeyError c)"
    by (rule detect_drift_ks_raises)
next
  assume a: "find (\<lambda>c. c \<notin> set (df_columns current)) (numeric_columns reference) = Some c
      \<and> psi_succeeds L reference current"
  then have "psi_loop L reference current (df_columns reference) [] = Inl (Exn KeyError c)"
    by (intro psi_loop_first_missing)
       (simp_all add: missing_column_iff numeric_columns_def psi_succeeds_def)
  then show "psi_drift L reference current = Inl (Exn KeyError c)"
    by (simp add: psi_drift_def)
next
  assume a: "list_all (\<lambda>c. map_of current c = map_of current' c) (numeric_columns reference)"
  then show "ks_test_drift L reference current = ks_test_drift L reference current'"
    by (simp add: ks_test_drift_def numeric_columns_def ks_loop_agree[of current current'])
  from a show "psi_drift L reference current = psi_drift L reference current'"
    by (simp add: psi_drift_def numeric_columns_def psi_loop_agree[of current current'])
qed

theorem unmatched_reference_column_raises_witness:
  "find (\<lambda>c. c \<notin> set (df_columns frame_no_x)) (numeric_columns frame_ref) = Some ''x''
   \<and> ks_succeeds example_lib frame_ref frame_no_x
   \<and> psi_succeeds example_lib frame_ref frame_no_x
   \<and> list_all (\<lambda>c. map_of frame_cur c = map_of frame_cur_extra c) (numeric_columns frame_ref)
   \<and> ks_test_drift example_lib frame_ref frame_no_x = Inl (Exn KeyError ''x'')
   \<and> psi_drift example_lib frame_ref frame_no_x = Inl (Exn KeyError ''x'')
   \<and> detect_drift example_lib example_detector frame_ref frame_no_x None
       = Inl (Exn KeyError ''x'')
   \<and> ks_test_drift example_lib frame_ref frame_cur
       = ks_test_drift example_lib frame_ref frame_cur_extra
   \<and> psi_drift example_lib frame_ref frame_cur
       = psi_drift example_lib frame_ref frame_cur_extra"
proof -
  have n: "numeric_columns frame_ref = [''x'', ''y'']"
    by (simp add: numeric_columns_def numeric_in_def df_columns_def is_numeric_def frame_defs)
  have f: "find (\<lambda>c. c \<notin> set (df_columns frame_no_x)) (numeric_columns frame_ref) = Some ''x''"
    unfolding n by (simp add: df_columns_def frame_defs)
  have k: "ks_succeeds example_lib frame_ref frame_no_x"
    unfolding ks_succeeds_def n
    by (simp add: ks_ok_def frame_defs example_lib_def dropna_def)
  have p: "psi_succeeds example_lib frame_ref frame_no_x"
    unfolding psi_succeeds_def n
    by (simp add: psi_ok_def frame_defs example_lib_def dropna_def)
  have a: "list_all (\<lambda>c. map_of frame_cur c = map_of frame_cur_extra c)
      (numeric_columns frame_ref)"
    unfolding n by (simp add: frame_cur_extra_def frame_defs)
  show ?thesis
    using unmatched_reference_column_raises[of frame_no_x frame_ref example_lib
        example_detector None "''x''" frame_no_x] f k p
      unmatched_reference_column_raises[of frame_cur frame_ref example_lib
        example_detector None "''x''" frame_cur_extra] a
    by blast
qed

text \<open>
  C6 as stated fails: the current frame lacks the numeric column \<open>x\<close> of the
  reference, and KS, PSI and the whole run raise KeyError.
\<close>

theorem unmatched_column_skipped_counterexample:
  "ks_test_drift example_lib frame_ref frame_no_x = Inl (Exn KeyError ''x'')
   \<and> psi_drift example_lib frame_ref frame_no_x = Inl (Exn KeyError ''x'')
   \<and> detect_drift example_lib example_detector frame_ref frame_no_x None
       = Inl (Exn KeyError ''x'')"
  by (simp add: detect_drift_def ks_test_drift_def psi_drift_def df_columns_def frame_defs
        df_getitem_def is_numeric_def dropna_def example_lib_def)

section \<open>C2: exceptions of the detectors\<close>

text \<open>
  Whatever the library is: an exception of the isolation forest leaves its method, an
  exception of the MMD body other than ImportError leaves its method, and either one
  leaves \<^verbatim>\<open>detect_drift\<close> when the methods before it have returned.
\<close>

lemma isolation_forest_raises:
  "isolation_forest_ratio L reference current = Inl e \<Longrightarrow>
   isolation_forest_drift L reference current = Inl e"
  by (simp add: isolation_forest_drift_def)

lemma mmd_raises:
  "mmd_body L reference current = Inl e \<Longrightarrow> exn_class_of e \<noteq> ImportError \<Longrightarrow>
   mmd_drift L reference current = Inl e"
  by (simp add: mmd_drift_def)

lemma detect_drift_raises:
  assumes "ks_test_drift L reference current = Inr k"
    and "psi_drift L reference current = Inr p"
  shows "mmd_drift L reference current = Inl e \<Longrightarrow>
         detect_drift L self reference current target = Inl e"
    and "mmd_drift L reference current = Inr m \<Longrightarrow>
         isolation_forest_drift L reference current = Inl e \<Longrightarrow>
         detect_drift L self reference current target = Inl e"
  using assms by (simp_all add: detect_drift_def)

text \<open>
  C2 does not hold of the code. Only \<^verbatim>\<open>_covariance_drift\<close> and
  \<^verbatim>\<open>_classifier_drift\<close> catch \<^verbatim>\<open>Exception\<close>; \<^verbatim>\<open>_mmd_drift\<close> catches
  ImportError alone, and the KS, PSI and isolation-forest methods have no handler. On
  the empty reference frame, which is the placeholder that the service loads for an
  identifier it has not cached, the kernel routine and the isolation forest raise
  ValueError: the covariance method turns it into a zero-score result with the error
  set, the MMD and isolation-forest methods let it escape, and so do
  \<^verbatim>\<open>detect_drift\<close> and the service.
\<close>

theorem method_failure_escapes:
  "mmd_drift example_lib [] frame_cur
     = Inl (Exn ValueError ''at least one array or dtype is required'')
   \<and> isolation_forest_drift example_lib [] frame_cur
     = Inl (Exn ValueError ''at least one array or dtype is required'')
   \<and> covariance_drift example_lib [] frame_cur
     = error_result ''covariance_drift'' ''at least one array or dtype is required''
   \<and> detect_drift example_lib example_detector [] frame_cur None
     = Inl (Exn ValueError ''at least one array or dtype is required'')
   \<and> fst (service_detect_drift example_lib example_env DriftDetectionService_init
            example_request)
     = Inl (Exn ValueError ''at least one array or dtype is required'')"
  by (simp add: service_detect_drift_def load_reference_data_def DriftDetectionService_init_def
        example_env_def example_request_def Let_def
        detect_drift_def ks_test_drift_def psi_drift_def mmd_drift_def mmd_body_def
        isolation_forest_drift_def covariance_drift_def df_columns_def df_len_def
        example_lib_def error_result_def frame_defs)

section \<open>C7: the recommendation\<close>

lemma drift_type_tests:
  "str_contains ''covariate_drift'' ''covariate_drift''"
  "\<not> str_contains ''covariate_drift'' ''concept_drift''"
  "\<not> str_contains ''covariate_drift'' ''no_drift''"
  "str_contains ''concept_drift'' ''concept_drift''"
  "\<not> str_contains ''concept_drift'' ''covariate_drift''"
  "\<not> str_contains ''concept_drift'' ''no_drift''"
  by simp_all

text \<open>
  C7, as amended. \<^verbatim>\<open>generate_recommendation\<close> returns the no-action message for
  every result whose \<^verbatim>\<open>drift_detected\<close> is false, whatever its score and its
  features. For a result with drift of type \<^verbatim>\<open>no_drift\<close>, \<^verbatim>\<open>covariate_drift\<close>
  or \<^verbatim>\<open>concept_drift\<close> it joins with \<^verbatim>\<open>" | "\<close>, in this order: for covariate
  drift the retrain message naming N = \<^verbatim>\<open>len(features_affected)\<close> features; for
  concept drift the update-model message; for a score above 0.8 the urgency message,
  which comes after the two, not first; for a non-empty \<^verbatim>\<open>features_affected\<close> its
  first five names. When no part applies the result is \<^verbatim>\<open>Monitor closely.\<close>
\<close>

theorem recommendation_rules:
  "(\<not> drift_detected result \<longrightarrow> generate_recommendation result = no_action_message)
   \<and> (drift_detected result
        \<and> drift_type result \<in> set [''no_drift'', ''covariate_drift'', ''concept_drift''] \<longrightarrow>
       generate_recommendation result =
         (if recommendation_parts result = [] then ''Monitor closely.''
          else str_join '' | '' (recommendation_parts result)))"
proof (intro conjI impI)
  assume "\<not> drift_detected result"
  then show "generate_recommendation result = no_action_message"
    by (simp add: generate_recommendation_def no_action_message_def)
next
  assume a: "drift_detected result
      \<and> drift_type result \<in> set [''no_drift'', ''covariate_drift'', ''concept_drift'']"
  then consider (none) "drift_type result = ''no_drift''"
    | (covariate) "drift_type result = ''covariate_drift''"
    | (concept) "drift_type result = ''concept_drift''"
    by auto
  then show "generate_recommendation result =
      (if recommendation_parts result = [] then ''Monitor closely.''
       else str_join '' | '' (recommendation_parts result))"
  proof cases
    case none
    with a show ?thesis
      unfolding generate_recommendation_def recommendation_parts_def Let_def
      by (simp only: drift_type_tests none)
         (simp add: urgent_message_def focus_message_def)
  next
    case covariate
    with a show ?thesis
      unfolding generate_recommendation_def recommendation_parts_def Let_def
      by (simp only: drift_type_tests covariate)
         (simp add: urgent_message_def focus_message_def retrain_message_def)
  next
    case concept
    with a show ?thesis
      unfolding generate_recommendation_def recommendation_parts_def Let_def
      by (simp only: drift_type_tests concept)
         (simp add: urgent_message_def focus_message_def concept_message_def)
  qed
qed

theorem recommendation_rules_witness:
  "\<not> drift_detected stable_example
   \<and> generate_recommendation stable_example = no_action_message
   \<and> drift_detected urgent_example
   \<and> drift_type urgent_example \<in> set [''no_drift'', ''covariate_drift'', ''concept_drift'']
   \<and> recommendation_parts urgent_example =
       [retrain_message 6, urgent_message, focus_message [''a'', ''b'', ''c'', ''d'', ''e'', ''f'']]
   \<and> generate_recommendation urgent_example =
       str_join '' | '' (recommendation_parts urgent_example)"
proof -
  have p: "recommendation_parts urgent_example =
      [retrain_message 6, urgent_message, focus_message [''a'', ''b'', ''c'', ''d'', ''e'', ''f'']]"
    by (simp add: recommendation_parts_def urgent_example_def eval_nat_numeral float_gt_def)
  have s: "\<not> drift_detected stable_example" by (simp add: stable_example_def)
  have u: "drift_detected urgent_example
      \<and> drift_type urgent_example \<in> set [''no_drift'', ''covariate_drift'', ''concept_drift'']"
    by (simp add: urgent_example_def)
  from recommendation_rules[of stable_example] s
  have a: "generate_recommendation stable_example = no_action_message"
    by blast
  from recommendation_rules[of urgent_example] u
  have b: "generate_recommendation urgent_example =
      (if recommendation_parts urgent_example = [] then ''Monitor closely.''
       else str_join '' | '' (recommendation_parts urgent_example))"
    by blast
  have ne: "recommendation_parts urgent_example \<noteq> []"
    unfolding p by simp
  from b ne have c: "generate_recommendation urgent_example =
      str_join '' | '' (recommendation_parts urgent_example)"
    by (simp only: if_False)
  from a c p s u show ?thesis by blast
qed

text \<open>
  C7 as stated fails. With a score above 0.8 the urgency message is not put first: it
  follows the retrain message. With a non-empty \<^verbatim>\<open>features_affected\<close> the names
  are not always appended: a result without drift gets the no-action message alone.
\<close>

theorem urgency_prepended_counterexample:
  "generate_recommendation urgent_example =
     ''Retrain model with new data distribution. 6 features affected. | URGENT: Significant drift detected. Consider immediate model retraining and evaluation. | Focus on features: a, b, c, d, e''
   \<and> features_affected stable_example = [''a'']
   \<and> generate_recommendation stable_example
       = ''No action needed. Model performance is stable.''"
  by (simp add: generate_recommendation_def urgent_example_def stable_example_def
        digit_char_def Let_def float_gt_def)

section \<open>C9: a frame against itself\<close>












end
